theory Spec2Isabelle
  imports Main
begin

section \<open>vcloudtools: records, XML decoders and the API client\<close>

text \<open>
  A shallow embedding of \<^verbatim>\<open>vcloudtools/vcloud.py\<close> (the records) and
  \<^verbatim>\<open>vcloudtools/api.py\<close> (the decoders and \<^verbatim>\<open>VCloudAPIClient\<close>).
  Python exceptions are values of the type \<open>error\<close>; a function that may raise returns
  \<open>error + 'a\<close> with \<open>Inl\<close> for the exception. A leading underscore of a Python name
  is dropped (\<^verbatim>\<open>_parse_org\<close> is \<open>parse_org\<close>), and a name that is taken in HOL
  gets a suffix.
\<close>

subsection \<open>XML elements as lxml presents them\<close>

text \<open>
  An element has a tag in Clark notation (\<^verbatim>\<open>{namespace}local\<close>), its attributes
  (\<^verbatim>\<open>el.attrib\<close>), its text (\<^verbatim>\<open>el.text\<close>, \<^verbatim>\<open>None\<close> when there is none) and its
  child elements in document order.
\<close>

datatype xml =
  Element (tag: string) (attrib: "(string \<times> string) list")
          (text_of: "string option") (children: "xml list")

definition VCLOUD_VERSION :: string where
  "VCLOUD_VERSION = ''1.5''"

definition VCLOUD_AUTH_HEADER :: string where
  "VCLOUD_AUTH_HEADER = ''x-vcloud-authorization''"

definition VCLOUD_MIME :: string where
  "VCLOUD_MIME = ''application/*+xml;version='' @ VCLOUD_VERSION"

text \<open>
  \<^verbatim>\<open>VCLOUD_NS\<close> binds the prefix \<^verbatim>\<open>vcloud\<close>; the path \<^verbatim>\<open>'vcloud:T'\<close> names
  the tag \<open>vcloud T\<close>.
\<close>

definition vcloud :: "string \<Rightarrow> string" where
  "vcloud t = ''{http://www.vmware.com/vcloud/v'' @ VCLOUD_VERSION @ ''}'' @ t"

text \<open>\<^verbatim>\<open>el.findall(path, ns)\<close>: the children with that tag, in document order.\<close>

definition findall :: "xml \<Rightarrow> string \<Rightarrow> xml list" where
  "findall el t = filter (\<lambda>c. tag c = t) (children el)"

text \<open>\<^verbatim>\<open>el.find(path, ns)\<close>: the first child with that tag, or \<^verbatim>\<open>None\<close>.\<close>

definition find_child :: "xml \<Rightarrow> string \<Rightarrow> xml option" where
  "find_child el t = List.find (\<lambda>c. tag c = t) (children el)"

subsection \<open>Exceptions\<close>

text \<open>
  A response of the HTTP library: the status code, the headers and the body. The body is
  represented by what \<^verbatim>\<open>lxml.etree.fromstring\<close> makes of it: \<open>None\<close> is a body that
  is not well-formed XML.
\<close>

record response =
  status_code :: nat
  resp_headers :: "string \<rightharpoonup> string"
  content :: "xml option"

text \<open>
  \<^verbatim>\<open>requests.RequestException\<close> and the two subclasses that matter here:
  \<^verbatim>\<open>HTTPError\<close>, which \<^verbatim>\<open>raise_for_status\<close> raises and which carries the response,
  and the failures of the transport itself.
\<close>

datatype request_exception = HTTPError response | ConnectionError string

text \<open>\<^verbatim>\<open>APIError\<close> is raised with a message or with the exception it wraps.\<close>

datatype api_error_arg = Message string | Wrapped request_exception

datatype error =
    ClientError string
  | APIError api_error_arg
  | Raw request_exception
  | KeyError string
  | AttributeError string
  | TypeError
  | IndexError
  | XMLSyntaxError

fun rbind :: "error + 'a \<Rightarrow> ('a \<Rightarrow> error + 'b) \<Rightarrow> error + 'b" where
  "rbind (Inl e) f = Inl e"
| "rbind (Inr x) f = f x"

text \<open>A comprehension or loop over a list whose body may raise: the first exception wins.\<close>

fun rmap :: "('a \<Rightarrow> error + 'b) \<Rightarrow> 'a list \<Rightarrow> error + 'b list" where
  "rmap f [] = Inr []"
| "rmap f (x # xs) = rbind (f x) (\<lambda>y. rbind (rmap f xs) (\<lambda>ys. Inr (y # ys)))"

text \<open>\<^verbatim>\<open>el.attrib[k]\<close> raises \<^verbatim>\<open>KeyError\<close> when the attribute is missing.\<close>

definition attrib_getitem :: "xml \<Rightarrow> string \<Rightarrow> error + string" where
  "attrib_getitem el k =
     (case map_of (attrib el) k of None \<Rightarrow> Inl (KeyError k) | Some v \<Rightarrow> Inr v)"

text \<open>
  \<^verbatim>\<open>x.find(path, ns)\<close>, \<^verbatim>\<open>x.findall(path, ns)\<close> and \<^verbatim>\<open>x.text\<close> where \<^verbatim>\<open>x\<close> is
  the result of an earlier \<^verbatim>\<open>find\<close>: on \<^verbatim>\<open>None\<close> the attribute access raises
  \<^verbatim>\<open>AttributeError\<close>.
\<close>

definition find_on :: "xml option \<Rightarrow> string \<Rightarrow> error + xml option" where
  "find_on x t =
     (case x of None \<Rightarrow> Inl (AttributeError ''find'') | Some el \<Rightarrow> Inr (find_child el t))"

definition findall_on :: "xml option \<Rightarrow> string \<Rightarrow> error + xml list" where
  "findall_on x t =
     (case x of None \<Rightarrow> Inl (AttributeError ''findall'') | Some el \<Rightarrow> Inr (findall el t))"

definition text_on :: "xml option \<Rightarrow> error + string option" where
  "text_on x =
     (case x of None \<Rightarrow> Inl (AttributeError ''text'') | Some el \<Rightarrow> Inr (text_of el))"

subsection \<open>The records of vcloud.py\<close>

text \<open>
  A field that the constructor defaults to \<^verbatim>\<open>None\<close> and that a decoder fills either
  from an XML attribute (a string) or with an object.
\<close>

datatype 'a pyfield = PyNone | PyStr string | PyObj 'a

record Link =
  type :: string
  href :: string
  rel :: string
  name :: "string option"

record ResourceEntity =
  type :: string
  href :: string
  name :: "string option"

text \<open>
  \<^verbatim>\<open>defaultdict(list)\<close> keyed by media type. Reading a missing key stores an empty
  list under it and returns that list; \<^verbatim>\<open>k in d\<close> does not store anything.
\<close>

type_synonym 'a index = "string \<rightharpoonup> 'a list"

definition index_append :: "'a index \<Rightarrow> string \<Rightarrow> 'a \<Rightarrow> 'a index" where
  "index_append res k v =
     (case res k of None \<Rightarrow> res(k \<mapsto> [v]) | Some vs \<Rightarrow> res(k \<mapsto> vs @ [v]))"

definition index_getitem :: "'a index \<Rightarrow> string \<Rightarrow> 'a list \<times> 'a index" where
  "index_getitem d k =
     (case d k of None \<Rightarrow> ([], d(k \<mapsto> [])) | Some vs \<Rightarrow> (vs, d))"

record Org =
  type :: string
  href :: string
  name :: string
  id_ :: "string option"
  full_name :: "string option"
  description :: "string option"
  links :: "Link index pyfield"

record OrgVdc =
  type :: string
  href :: string
  name :: string
  id_ :: "string option"
  storage :: "string \<rightharpoonup> string option"
  compute :: "string \<rightharpoonup> (string \<rightharpoonup> string option)"
  links :: "Link index"
  entities :: "ResourceEntity index"

record ExtNet =
  type :: string
  href :: string
  name :: string
  config :: "xml pyfield"
  id_ :: "string option"
  description :: "string option"
  links :: "Link index pyfield"

record IpRange =
  first :: string
  last :: string

record OrgNet =
  name :: string
  gateway :: "string option"
  netmask :: "string option"
  dns :: "string option"
  ranges :: "IpRange list"

text \<open>\<^verbatim>\<open>OrgList.org_by_name\<close> and \<^verbatim>\<open>ExtNetList.ext_net_by_name\<close>.\<close>

fun org_by_name :: "Org list \<Rightarrow> string \<Rightarrow> Org option" where
  "org_by_name [] n = None"
| "org_by_name (o1 # orgs) n =
     (if Org.name o1 = n then Some o1 else org_by_name orgs n)"

fun ext_net_by_name :: "ExtNet list \<Rightarrow> string \<Rightarrow> ExtNet option" where
  "ext_net_by_name [] n = None"
| "ext_net_by_name (en # ext_nets) n =
     (if ExtNet.name en = n then Some en else ext_net_by_name ext_nets n)"

subsection \<open>Constructors called with \<^verbatim>\<open>**el.attrib\<close>\<close>

text \<open>
  The attributes of the element are the keyword arguments: an attribute that is not a
  parameter of \<^verbatim>\<open>__new__\<close> and a missing parameter without default both raise
  \<^verbatim>\<open>TypeError\<close>.
\<close>

definition unexpected_keyword :: "(string \<times> string) list \<Rightarrow> string list \<Rightarrow> bool" where
  "unexpected_keyword kw params = list_ex (\<lambda>k. k \<notin> set params) (map fst kw)"

definition str_field :: "(string \<times> string) list \<Rightarrow> string \<Rightarrow> 'a pyfield" where
  "str_field kw k = (case map_of kw k of None \<Rightarrow> PyNone | Some v \<Rightarrow> PyStr v)"

definition Link_new :: "(string \<times> string) list \<Rightarrow> error + Link" where
  "Link_new kw =
     (if unexpected_keyword kw [''type'', ''href'', ''rel'', ''name''] then Inl TypeError
      else case (map_of kw ''type'', map_of kw ''href'', map_of kw ''rel'') of
        (Some t, Some h, Some r) \<Rightarrow>
          Inr \<lparr>Link.type = t, href = h, rel = r, name = map_of kw ''name''\<rparr>
      | _ \<Rightarrow> Inl TypeError)"

definition ResourceEntity_new :: "(string \<times> string) list \<Rightarrow> error + ResourceEntity" where
  "ResourceEntity_new kw =
     (if unexpected_keyword kw [''type'', ''href'', ''name''] then Inl TypeError
      else case (map_of kw ''type'', map_of kw ''href'') of
        (Some t, Some h) \<Rightarrow>
          Inr \<lparr>ResourceEntity.type = t, href = h, name = map_of kw ''name''\<rparr>
      | _ \<Rightarrow> Inl TypeError)"

definition Org_new :: "(string \<times> string) list \<Rightarrow> error + Org" where
  "Org_new kw =
     (if unexpected_keyword kw
           [''type'', ''href'', ''name'', ''id'', ''full_name'', ''description'', ''links'']
      then Inl TypeError
      else case (map_of kw ''type'', map_of kw ''href'', map_of kw ''name'') of
        (Some t, Some h, Some n) \<Rightarrow>
          Inr \<lparr>Org.type = t, href = h, name = n, id_ = map_of kw ''id'',
               full_name = map_of kw ''full_name'', description = map_of kw ''description'',
               links = str_field kw ''links''\<rparr>
      | _ \<Rightarrow> Inl TypeError)"

definition ExtNet_new :: "(string \<times> string) list \<Rightarrow> error + ExtNet" where
  "ExtNet_new kw =
     (if unexpected_keyword kw
           [''type'', ''href'', ''name'', ''config'', ''id'', ''description'', ''links'']
      then Inl TypeError
      else case (map_of kw ''type'', map_of kw ''href'', map_of kw ''name'') of
        (Some t, Some h, Some n) \<Rightarrow>
          Inr \<lparr>ExtNet.type = t, href = h, name = n, config = str_field kw ''config'',
               id_ = map_of kw ''id'', description = map_of kw ''description'',
               links = str_field kw ''links''\<rparr>
      | _ \<Rightarrow> Inl TypeError)"

subsection \<open>The decoders of api.py\<close>

definition parse_link :: "xml \<Rightarrow> error + Link" where
  "parse_link el = Link_new (attrib el)"

definition parse_resource_entity :: "xml \<Rightarrow> error + ResourceEntity" where
  "parse_resource_entity el = ResourceEntity_new (attrib el)"

text \<open>
  The loop of \<^verbatim>\<open>_parse_links\<close>:
  \<^verbatim>\<open>link = _parse_link(c); res[link.type].append(link)\<close>.
\<close>

fun parse_links_loop :: "xml list \<Rightarrow> Link index \<Rightarrow> error + Link index" where
  "parse_links_loop [] res = Inr res"
| "parse_links_loop (c # cs) res =
     rbind (parse_link c)
       (\<lambda>link. parse_links_loop cs (index_append res (Link.type link) link))"

definition parse_links :: "xml \<Rightarrow> error + Link index" where
  "parse_links el = parse_links_loop (findall el (vcloud ''Link'')) Map.empty"

fun parse_resource_entities_loop ::
  "xml list \<Rightarrow> ResourceEntity index \<Rightarrow> error + ResourceEntity index" where
  "parse_resource_entities_loop [] res = Inr res"
| "parse_resource_entities_loop (c # cs) res =
     rbind (parse_resource_entity c)
       (\<lambda>re. parse_resource_entities_loop cs (index_append res (ResourceEntity.type re) re))"

definition parse_resource_entities :: "xml \<Rightarrow> error + ResourceEntity index" where
  "parse_resource_entities el =
     rbind (findall_on (find_child el (vcloud ''ResourceEntities'')) (vcloud ''ResourceEntity''))
       (\<lambda>cs. parse_resource_entities_loop cs Map.empty)"

definition parse_org_short :: "xml \<Rightarrow> error + Org" where
  "parse_org_short el = Org_new (attrib el)"

definition parse_ext_net_short :: "xml \<Rightarrow> error + ExtNet" where
  "parse_ext_net_short el = ExtNet_new (attrib el)"

text \<open>\<^verbatim>\<open>OrgList(orgs=orgs)\<close> and \<^verbatim>\<open>ExtNetList(ext_nets=ext_nets)\<close> are the lists themselves.\<close>

definition parse_org_list :: "xml \<Rightarrow> error + Org list" where
  "parse_org_list el = rmap parse_org_short (findall el (vcloud ''Org''))"

definition parse_ext_net_list :: "xml \<Rightarrow> error + ExtNet list" where
  "parse_ext_net_list el =
     rbind (findall_on (find_child el (vcloud ''Networks'')) (vcloud ''Network''))
       (rmap parse_ext_net_short)"

definition parse_org :: "xml \<Rightarrow> error + Org" where
  "parse_org el =
     rbind (attrib_getitem el ''type'') (\<lambda>type'.
     rbind (attrib_getitem el ''href'') (\<lambda>href'.
     rbind (attrib_getitem el ''name'') (\<lambda>name'.
     rbind (attrib_getitem el ''id'') (\<lambda>id'.
     rbind (text_on (find_child el (vcloud ''FullName''))) (\<lambda>full_name'.
     rbind (text_on (find_child el (vcloud ''Description''))) (\<lambda>description'.
     rbind (parse_links el) (\<lambda>links'.
       Inr \<lparr>Org.type = type', href = href', name = name', id_ = Some id',
            full_name = full_name', description = description',
            links = PyObj links'\<rparr>)))))))"

definition parse_ext_net :: "xml \<Rightarrow> error + ExtNet" where
  "parse_ext_net el =
     rbind (attrib_getitem el ''type'') (\<lambda>type'.
     rbind (attrib_getitem el ''href'') (\<lambda>href'.
     rbind (attrib_getitem el ''name'') (\<lambda>name'.
     rbind (attrib_getitem el ''id'') (\<lambda>id'.
     rbind (text_on (find_child el (vcloud ''Description''))) (\<lambda>description'.
     rbind (parse_links el) (\<lambda>links'.
       Inr \<lparr>ExtNet.type = type', href = href', name = name',
            config = (case find_child el (vcloud ''Configuration'') of
                        None \<Rightarrow> PyNone | Some config' \<Rightarrow> PyObj config'),
            id_ = Some id', description = description',
            links = PyObj links'\<rparr>))))))"

text \<open>
  \<^verbatim>\<open>_parse_ip_ranges\<close>. The label
  \<^verbatim>\<open>name = net_name+" - ("+first+"-"+last+")"\<close> is computed and dropped, and the
  concatenation raises \<^verbatim>\<open>TypeError\<close> when an address element has no text.
\<close>

fun parse_ip_ranges_loop :: "string \<Rightarrow> xml list \<Rightarrow> IpRange list \<Rightarrow> error + IpRange list" where
  "parse_ip_ranges_loop net_name [] ranges' = Inr ranges'"
| "parse_ip_ranges_loop net_name (r # rs) ranges' =
     rbind (text_on (find_child r (vcloud ''StartAddress''))) (\<lambda>first'.
     rbind (text_on (find_child r (vcloud ''EndAddress''))) (\<lambda>last'.
       case (first', last') of
         (Some f, Some l) \<Rightarrow>
           parse_ip_ranges_loop net_name rs (ranges' @ [\<lparr>first = f, last = l\<rparr>])
       | _ \<Rightarrow> Inl TypeError))"

definition parse_ip_ranges :: "string \<Rightarrow> xml option \<Rightarrow> error + IpRange list" where
  "parse_ip_ranges net_name el =
     rbind (findall_on el (vcloud ''IpRange''))
       (\<lambda>raw_ranges. parse_ip_ranges_loop net_name raw_ranges [])"

definition parse_org_nets :: "xml \<Rightarrow> error + OrgNet" where
  "parse_org_nets el =
     (let configuration = find_child el (vcloud ''Configuration'') in
      rbind (find_on configuration (vcloud ''IpScope'')) (\<lambda>ipscope.
      rbind (rbind (find_on ipscope (vcloud ''Gateway'')) text_on) (\<lambda>gateway'.
      rbind (rbind (find_on ipscope (vcloud ''Netmask'')) text_on) (\<lambda>netmask'.
      rbind (rbind (find_on ipscope (vcloud ''DnsSuffix'')) text_on) (\<lambda>dns'.
      rbind (attrib_getitem el ''name'') (\<lambda>net_name.
      rbind (find_on ipscope (vcloud ''IpRanges'')) (\<lambda>ipranges.
      rbind (parse_ip_ranges net_name ipranges) (\<lambda>ranges'.
      rbind (attrib_getitem el ''name'') (\<lambda>name'.
        Inr \<lparr>OrgNet.name = name', gateway = gateway', netmask = netmask', dns = dns',
             ranges = ranges'\<rparr>)))))))))"

text \<open>\<^verbatim>\<open>s.split(sep)\<close> for a separator of one character.\<close>

fun split_chr :: "char \<Rightarrow> string \<Rightarrow> string list" where
  "split_chr sep [] = [[]]"
| "split_chr sep (x # xs) =
     (if x = sep then [] # split_chr sep xs
      else case split_chr sep xs of
             [] \<Rightarrow> [[x]]
           | w # ws \<Rightarrow> (x # w) # ws)"

text \<open>
  The capacity loops of \<^verbatim>\<open>_parse_org_vdcs\<close>:
  \<^verbatim>\<open>for k in raw: d[k.tag.split('}')[1]] = k.text\<close>. Iterating \<^verbatim>\<open>None\<close> raises
  \<^verbatim>\<open>TypeError\<close>, and a tag without \<^verbatim>\<open>}\<close> raises \<^verbatim>\<open>IndexError\<close>.
\<close>

fun capacity_loop ::
  "xml list \<Rightarrow> (string \<rightharpoonup> string option) \<Rightarrow> error + (string \<rightharpoonup> string option)" where
  "capacity_loop [] d = Inr d"
| "capacity_loop (k # ks) d =
     (case split_chr (CHR ''}'') (tag k) of
        _ # key # _ \<Rightarrow> capacity_loop ks (d(key \<mapsto> text_of k))
      | _ \<Rightarrow> Inl IndexError)"

definition capacity :: "xml option \<Rightarrow> error + (string \<rightharpoonup> string option)" where
  "capacity raw =
     (case raw of None \<Rightarrow> Inl TypeError | Some el \<Rightarrow> capacity_loop (children el) Map.empty)"

definition parse_org_vdcs :: "xml \<Rightarrow> error + OrgVdc" where
  "parse_org_vdcs el =
     rbind (attrib_getitem el ''type'') (\<lambda>type'.
     rbind (attrib_getitem el ''href'') (\<lambda>href'.
     rbind (attrib_getitem el ''name'') (\<lambda>name'.
     rbind (attrib_getitem el ''id'') (\<lambda>id'.
     rbind (capacity (find_child el (vcloud ''StorageCapacity''))) (\<lambda>s_cap.
     (let raw_compute_capacity = find_child el (vcloud ''ComputeCapacity'') in
     rbind (find_on raw_compute_capacity (vcloud ''Cpu'')) (\<lambda>raw_cpu.
     rbind (capacity raw_cpu) (\<lambda>cpu.
     rbind (find_on raw_compute_capacity (vcloud ''Memory'')) (\<lambda>raw_memory.
     rbind (capacity raw_memory) (\<lambda>memory.
     rbind (parse_links el) (\<lambda>links'.
     rbind (parse_resource_entities el) (\<lambda>r_entities.
       Inr \<lparr>OrgVdc.type = type', href = href', name = name', id_ = Some id',
            storage = s_cap, compute = [''cpu'' \<mapsto> cpu, ''memory'' \<mapsto> memory],
            links = links', entities = r_entities\<rparr>))))))))))))"

subsection \<open>The HTTP session\<close>

text \<open>
  A request as the session sends it: the headers are the session's headers, and
  \<^verbatim>\<open>auth\<close> is the keyword argument that only \<^verbatim>\<open>login\<close> passes. The server and the
  network are a parameter: a transport maps the state of the world and a request to a
  response, or to the exception \<^verbatim>\<open>Session.request\<close> raises, and the next state.
\<close>

record request =
  req_method :: string
  req_url :: string
  req_headers :: "string \<rightharpoonup> string option"
  req_auth :: "(string \<times> string) option"

type_synonym 'w transport = "'w \<Rightarrow> request \<Rightarrow> (request_exception + response) \<times> 'w"

text \<open>
  \<^verbatim>\<open>Response.raise_for_status\<close> of the HTTP library raises \<^verbatim>\<open>HTTPError\<close> for the
  status codes 400 to 599 and returns otherwise; \<^verbatim>\<open>Response.ok\<close> is true when it does
  not raise.
\<close>

definition raise_for_status :: "response \<Rightarrow> request_exception + unit" where
  "raise_for_status res =
     (if 400 \<le> status_code res \<and> status_code res < 600 then Inl (HTTPError res)
      else Inr ())"

definition ok :: "response \<Rightarrow> bool" where
  "ok res = (case raise_for_status res of Inl _ \<Rightarrow> False | Inr _ \<Rightarrow> True)"

definition custom_raise_for_status :: "response \<Rightarrow> error + unit" where
  "custom_raise_for_status res =
     (case raise_for_status res of
        Inl err \<Rightarrow> Inl (APIError (Wrapped err))
      | Inr u \<Rightarrow> Inr u)"

definition fromstring :: "xml option \<Rightarrow> error + xml" where
  "fromstring body = (case body of None \<Rightarrow> Inl XMLSyntaxError | Some el \<Rightarrow> Inr el)"

subsection \<open>VCloudAPIClient\<close>

text \<open>
  The attributes of the client: \<^verbatim>\<open>_session.headers\<close>, \<^verbatim>\<open>_token\<close>, \<^verbatim>\<open>root\<close> and
  \<^verbatim>\<open>_links\<close>. A header may hold \<^verbatim>\<open>None\<close>.
\<close>

record client =
  headers :: "string \<rightharpoonup> string option"
  token :: "string option"
  root :: string
  links :: "Link index option"

text \<open>The setter of the property \<^verbatim>\<open>token\<close>.\<close>

definition token_setter :: "client \<Rightarrow> string option \<Rightarrow> client" where
  "token_setter self tok =
     self\<lparr>token := tok, headers := (headers self)(VCLOUD_AUTH_HEADER \<mapsto> tok)\<rparr>"

definition req ::
  "'w transport \<Rightarrow> client \<Rightarrow> string \<Rightarrow> string \<Rightarrow> bool \<Rightarrow> (string \<times> string) option \<Rightarrow> 'w
     \<Rightarrow> (error + response) \<times> 'w" where
  "req tr self method' url' raise' auth' w =
     (case tr w \<lparr>req_method = method', req_url = url', req_headers = headers self,
                 req_auth = auth'\<rparr> of
        (Inl exc, w') \<Rightarrow> (Inl (Raw exc), w')
      | (Inr res, w') \<Rightarrow>
          (if raise' then
             (case custom_raise_for_status res of
                Inl e \<Rightarrow> (Inl e, w')
              | Inr _ \<Rightarrow> (Inr res, w'))
           else (Inr res, w')))"

definition url :: "client \<Rightarrow> string \<Rightarrow> string" where
  "url self path = root self @ path"

definition lookup :: "client \<Rightarrow> string \<Rightarrow> error + string" where
  "lookup self typ =
     (let full_typ = ''application/vnd.vmware.'' @ typ @ ''+xml'' in
      case client.links self of
        None \<Rightarrow> Inl TypeError
      | Some links' \<Rightarrow>
          (case links' full_typ of
             Some ls \<Rightarrow> (case ls of [] \<Rightarrow> Inl IndexError | l # _ \<Rightarrow> Inr (Link.href l))
           | None \<Rightarrow>
               Inl (APIError (Message
                 (''Don't know anything about type '' @ [CHR 0x27] @ typ @ [CHR 0x27])))))"

definition fetch_initial_links :: "'w transport \<Rightarrow> client \<Rightarrow> 'w \<Rightarrow> (error + Link index) \<times> 'w" where
  "fetch_initial_links tr self w =
     (case req tr self ''get'' (url self ''/session'') True None w of
        (Inl e, w') \<Rightarrow> (Inl e, w')
      | (Inr res, w') \<Rightarrow> (rbind (fromstring (content res)) parse_links, w'))"

text \<open>The property \<^verbatim>\<open>logged_in\<close>.\<close>

definition logged_in :: "'w transport \<Rightarrow> client \<Rightarrow> 'w \<Rightarrow> (error + bool) \<times> 'w" where
  "logged_in tr self w =
     (case req tr self ''get'' (url self ''/session'') False None w of
        (Inl e, w') \<Rightarrow> (Inl e, w')
      | (Inr res, w') \<Rightarrow> (Inr (ok res), w'))"

text \<open>\<^verbatim>\<open>key.upper()\<close>, on the ASCII keys the client uses.\<close>

definition upper_chr :: "char \<Rightarrow> char" where
  "upper_chr c =
     (case map_of (zip ''abcdefghijklmnopqrstuvwxyz'' ''ABCDEFGHIJKLMNOPQRSTUVWXYZ'') c of
        None \<Rightarrow> c
      | Some u \<Rightarrow> u)"

definition envkey :: "string \<Rightarrow> string" where
  "envkey key = ''VCLOUD_'' @ map upper_chr key"

definition envget :: "(string \<rightharpoonup> string) \<Rightarrow> string \<Rightarrow> string option" where
  "envget env key = env (envkey key)"

text \<open>
  \<^verbatim>\<open>__init__\<close>, given the environment and the argument \<^verbatim>\<open>root\<close>. The attributes
  \<^verbatim>\<open>root\<close> and \<^verbatim>\<open>_links\<close> do not exist before their assignment; the record holds an
  empty root and no links until then.
\<close>

definition init ::
  "'w transport \<Rightarrow> (string \<rightharpoonup> string) \<Rightarrow> string option \<Rightarrow> 'w \<Rightarrow> (error + client) \<times> 'w" where
  "init tr env root' w =
     (let self0 = \<lparr>headers = [''accept'' \<mapsto> Some VCLOUD_MIME], token = None, root = [],
                    links = None\<rparr>;
          self1 = token_setter self0 (envget env ''auth_token'')
      in case (case root' of Some r \<Rightarrow> Some r | None \<Rightarrow> envget env ''api_root'') of
           None \<Rightarrow>
             (Inl (ClientError
                (''No known API root for vCloud. Perhaps you need to set $''
                   @ envkey ''api_root'' @ ''?'')), w)
         | Some r \<Rightarrow>
             (let self2 = self1\<lparr>root := r, links := None\<rparr> in
              case logged_in tr self2 w of
                (Inl e, w1) \<Rightarrow> (Inl e, w1)
              | (Inr li, w1) \<Rightarrow>
                  (if li then
                     (case fetch_initial_links tr self2 w1 of
                        (Inl e, w2) \<Rightarrow> (Inl e, w2)
                      | (Inr links', w2) \<Rightarrow> (Inr (self2\<lparr>links := Some links'\<rparr>), w2))
                   else (Inr self2, w1))))"

text \<open>
  \<^verbatim>\<open>login\<close> assigns the token before it fetches the links, so the client it leaves
  behind is returned also when it raises. The headers of a response are looked up by
  their lower-case name.
\<close>

definition login ::
  "'w transport \<Rightarrow> client \<Rightarrow> string \<Rightarrow> string \<Rightarrow> 'w \<Rightarrow> (error + unit) \<times> client \<times> 'w" where
  "login tr self username password w =
     (case req tr self ''post'' (url self ''/sessions'') True (Some (username, password)) w of
        (Inl e, w1) \<Rightarrow> (Inl e, self, w1)
      | (Inr res, w1) \<Rightarrow>
          (case resp_headers res VCLOUD_AUTH_HEADER of
             None \<Rightarrow> (Inl (KeyError VCLOUD_AUTH_HEADER), self, w1)
           | Some tok \<Rightarrow>
               (let self1 = token_setter self (Some tok) in
                case fetch_initial_links tr self1 w1 of
                  (Inl e, w2) \<Rightarrow> (Inl e, self1, w2)
                | (Inr links', w2) \<Rightarrow> (Inr (), self1\<lparr>links := Some links'\<rparr>, w2))))"

definition org_list :: "'w transport \<Rightarrow> client \<Rightarrow> 'w \<Rightarrow> (error + Org list) \<times> 'w" where
  "org_list tr self w =
     (case lookup self ''vcloud.orgList'' of
        Inl e \<Rightarrow> (Inl e, w)
      | Inr u \<Rightarrow>
          (case req tr self ''get'' u True None w of
             (Inl e, w') \<Rightarrow> (Inl e, w')
           | (Inr res, w') \<Rightarrow> (rbind (fromstring (content res)) parse_org_list, w')))"

definition ext_net_list :: "'w transport \<Rightarrow> client \<Rightarrow> 'w \<Rightarrow> (error + ExtNet list) \<times> 'w" where
  "ext_net_list tr self w =
     (case lookup self ''admin.vcloud'' of
        Inl e \<Rightarrow> (Inl e, w)
      | Inr u \<Rightarrow>
          (case req tr self ''get'' u True None w of
             (Inl e, w') \<Rightarrow> (Inl e, w')
           | (Inr res, w') \<Rightarrow> (rbind (fromstring (content res)) parse_ext_net_list, w')))"

text \<open>
  \<^verbatim>\<open>org\<close> reads \<^verbatim>\<open>org_short.href\<close> of what \<^verbatim>\<open>org_by_name\<close> returned; on
  \<^verbatim>\<open>None\<close> the attribute access raises \<^verbatim>\<open>AttributeError\<close>.
\<close>

definition org :: "'w transport \<Rightarrow> client \<Rightarrow> string \<Rightarrow> 'w \<Rightarrow> (error + Org) \<times> 'w" where
  "org tr self n w =
     (case org_list tr self w of
        (Inl e, w1) \<Rightarrow> (Inl e, w1)
      | (Inr orgs, w1) \<Rightarrow>
          (case org_by_name orgs n of
             None \<Rightarrow> (Inl (AttributeError ''href''), w1)
           | Some org_short \<Rightarrow>
               (case req tr self ''get'' (Org.href org_short) True None w1 of
                  (Inl e, w2) \<Rightarrow> (Inl e, w2)
                | (Inr res, w2) \<Rightarrow> (rbind (fromstring (content res)) parse_org, w2))))"

definition ext_net :: "'w transport \<Rightarrow> client \<Rightarrow> string \<Rightarrow> 'w \<Rightarrow> (error + ExtNet) \<times> 'w" where
  "ext_net tr self n w =
     (case ext_net_list tr self w of
        (Inl e, w1) \<Rightarrow> (Inl e, w1)
      | (Inr ext_nets, w1) \<Rightarrow>
          (case ext_net_by_name ext_nets n of
             None \<Rightarrow> (Inl (AttributeError ''href''), w1)
           | Some ext_net_short \<Rightarrow>
               (case req tr self ''get'' (ExtNet.href ext_net_short) True None w1 of
                  (Inl e, w2) \<Rightarrow> (Inl e, w2)
                | (Inr res, w2) \<Rightarrow> (rbind (fromstring (content res)) parse_ext_net, w2))))"

text \<open>
  \<^verbatim>\<open>org_nets\<close> and \<^verbatim>\<open>org_vdcs\<close> read \<^verbatim>\<open>org.links[...]\<close>, which is the
  \<^verbatim>\<open>defaultdict\<close> of the record: the functions return the record as the call leaves it.
  Subscripting \<^verbatim>\<open>None\<close> or a string with the media type raises \<^verbatim>\<open>TypeError\<close>.
\<close>

fun org_nets_loop ::
  "'w transport \<Rightarrow> client \<Rightarrow> Link list \<Rightarrow> OrgNet list \<Rightarrow> 'w \<Rightarrow> (error + OrgNet list) \<times> 'w" where
  "org_nets_loop tr self [] nets w = (Inr nets, w)"
| "org_nets_loop tr self (l # ls) nets w =
     (case req tr self ''get'' (Link.href l) True None w of
        (Inl e, w') \<Rightarrow> (Inl e, w')
      | (Inr res, w') \<Rightarrow>
          (case rbind (fromstring (content res)) parse_org_nets of
             Inl e \<Rightarrow> (Inl e, w')
           | Inr net \<Rightarrow> org_nets_loop tr self ls (nets @ [net]) w'))"

definition org_nets ::
  "'w transport \<Rightarrow> client \<Rightarrow> Org \<Rightarrow> 'w \<Rightarrow> (error + OrgNet list) \<times> Org \<times> 'w" where
  "org_nets tr self org' w =
     (case Org.links org' of
        PyObj d \<Rightarrow>
          (case index_getitem d ''application/vnd.vmware.vcloud.orgNetwork+xml'' of
             (ls, d') \<Rightarrow>
               (case org_nets_loop tr self ls [] w of
                  (r, w') \<Rightarrow> (r, org'\<lparr>Org.links := PyObj d'\<rparr>, w')))
      | _ \<Rightarrow> (Inl TypeError, org', w))"

fun org_vdcs_loop ::
  "'w transport \<Rightarrow> client \<Rightarrow> Link list \<Rightarrow> OrgVdc list \<Rightarrow> 'w \<Rightarrow> (error + OrgVdc list) \<times> 'w" where
  "org_vdcs_loop tr self [] vdcs w = (Inr vdcs, w)"
| "org_vdcs_loop tr self (l # ls) vdcs w =
     (case req tr self ''get'' (Link.href l) True None w of
        (Inl e, w') \<Rightarrow> (Inl e, w')
      | (Inr res, w') \<Rightarrow>
          (case rbind (fromstring (content res)) parse_org_vdcs of
             Inl e \<Rightarrow> (Inl e, w')
           | Inr vdc \<Rightarrow> org_vdcs_loop tr self ls (vdcs @ [vdc]) w'))"

definition org_vdcs ::
  "'w transport \<Rightarrow> client \<Rightarrow> Org \<Rightarrow> 'w \<Rightarrow> (error + OrgVdc list) \<times> Org \<times> 'w" where
  "org_vdcs tr self org' w =
     (case Org.links org' of
        PyObj d \<Rightarrow>
          (case index_getitem d ''application/vnd.vmware.vcloud.vdc+xml'' of
             (ls, d') \<Rightarrow>
               (case org_vdcs_loop tr self ls [] w of
                  (r, w') \<Rightarrow> (r, org'\<lparr>Org.links := PyObj d'\<rparr>, w')))
      | _ \<Rightarrow> (Inl TypeError, org', w))"

text \<open>
  \<^verbatim>\<open>org_vapps\<close>: the records of \<^verbatim>\<open>ovdcs\<close> are local to the call, so only the
  entries read from them are kept.
\<close>

definition org_vapps ::
  "'w transport \<Rightarrow> client \<Rightarrow> Org \<Rightarrow> 'w \<Rightarrow> (error + ResourceEntity list) \<times> Org \<times> 'w" where
  "org_vapps tr self org' w =
     (case org_vdcs tr self org' w of
        (Inl e, org1, w1) \<Rightarrow> (Inl e, org1, w1)
      | (Inr ovdcs, org1, w1) \<Rightarrow>
          (Inr (foldl (\<lambda>r_entities ovdc.
                  r_entities @ fst (index_getitem (entities ovdc)
                                      ''application/vnd.vmware.vcloud.vApp+xml''))
                [] ovdcs),
           org1, w1))"

section \<open>Notions used in the statements\<close>

text \<open>
  What an index holds under the key \<open>k\<close> once the records \<open>ls\<close> have been appended to
  \<open>res\<close>, each under its own type \<open>ty l\<close>.
\<close>

definition grouped :: "('a \<Rightarrow> string) \<Rightarrow> 'a index \<Rightarrow> 'a list \<Rightarrow> string \<Rightarrow> 'a list option" where
  "grouped ty res ls k =
     (case res k of
        None \<Rightarrow>
          (if filter (\<lambda>l. ty l = k) ls = [] then None else Some (filter (\<lambda>l. ty l = k) ls))
      | Some vs \<Rightarrow> Some (vs @ filter (\<lambda>l. ty l = k) ls))"

text \<open>
  \<open>fetched_in_order tr self decode w ls xs w'\<close>: starting in the state \<open>w\<close>, one GET
  request per link of \<open>ls\<close>, sent in the order of \<open>ls\<close> to the href of the link, each
  answered without error by a document that \<open>decode\<close> accepts, yields the records
  \<open>xs\<close>, one per link in the same order, and leaves the state \<open>w'\<close>.
\<close>

inductive fetched_in_order ::
  "'w transport \<Rightarrow> client \<Rightarrow> (xml \<Rightarrow> error + 'a) \<Rightarrow> 'w \<Rightarrow> Link list \<Rightarrow> 'a list \<Rightarrow> 'w \<Rightarrow> bool"
  for tr :: "'w transport" and self :: client and decode :: "xml \<Rightarrow> error + 'a" where
  fetched_none: "fetched_in_order tr self decode w [] [] w"
| fetched_next:
    "req tr self ''get'' (Link.href l) True None w = (Inr res, wa) \<Longrightarrow> content res = Some el
       \<Longrightarrow> decode el = Inr x \<Longrightarrow> fetched_in_order tr self decode wa ls xs w'
       \<Longrightarrow> fetched_in_order tr self decode w (l # ls) (x # xs) w'"

definition NET :: string where "NET = ''application/vnd.vmware.vcloud.orgNetwork+xml''"
definition VDC :: string where "VDC = ''application/vnd.vmware.vcloud.vdc+xml''"

section \<open>Example inputs\<close>

definition org_of :: "string \<Rightarrow> string \<Rightarrow> Org" where
  "org_of n h =
     \<lparr>Org.type = ''application/vnd.vmware.vcloud.org+xml'', href = h, name = n,
      id_ = None, full_name = None, description = None, links = PyNone\<rparr>"

definition ext_net_of :: "string \<Rightarrow> string \<Rightarrow> ExtNet" where
  "ext_net_of n h =
     \<lparr>ExtNet.type = ''application/vnd.vmware.admin.network+xml'', href = h, name = n,
      config = PyNone, id_ = None, description = None, links = PyNone\<rparr>"

definition link_el :: "string \<Rightarrow> string \<Rightarrow> xml" where
  "link_el t h =
     Element (vcloud ''Link'') [(''rel'', ''down''), (''type'', t), (''href'', h)] None []"

definition link_of :: "string \<Rightarrow> string \<Rightarrow> Link" where
  "link_of t h = \<lparr>Link.type = t, href = h, rel = ''down'', name = None\<rparr>"

definition session_el :: xml where
  "session_el =
     Element (vcloud ''Session'') [(''user'', ''admin'')] None
       [link_el ''application/vnd.vmware.vcloud.orgList+xml'' ''https://vc/api/org/'',
        link_el ''application/vnd.vmware.admin.vcloud+xml'' ''https://vc/api/admin/'',
        Element (vcloud ''Other'') [] None [],
        link_el ''application/vnd.vmware.vcloud.orgList+xml'' ''https://vc/api/org2/'']"

definition entity_el :: "string \<Rightarrow> string \<Rightarrow> xml" where
  "entity_el t h =
     Element (vcloud ''ResourceEntity'') [(''type'', t), (''name'', ''e''), (''href'', h)]
       None []"

definition entity_of :: "string \<Rightarrow> string \<Rightarrow> ResourceEntity" where
  "entity_of t h = \<lparr>ResourceEntity.type = t, href = h, name = Some ''e''\<rparr>"

definition vdc_entities_el :: xml where
  "vdc_entities_el =
     Element (vcloud ''Vdc'') [] None
       [Element (vcloud ''ResourceEntities'') [] None
          [entity_el ''application/vnd.vmware.vcloud.vApp+xml'' ''https://vc/api/vApp/1'',
           entity_el ''application/vnd.vmware.vcloud.media+xml'' ''https://vc/api/media/1'',
           entity_el ''application/vnd.vmware.vcloud.vApp+xml'' ''https://vc/api/vApp/2'']]"

definition client_of :: "Link index option \<Rightarrow> client" where
  "client_of ls =
     \<lparr>headers = [''accept'' \<mapsto> Some VCLOUD_MIME], token = None, root = ''https://vc/api'',
      links = ls\<rparr>"

definition text_el :: "string \<Rightarrow> string option \<Rightarrow> xml" where
  "text_el t s = Element (vcloud t) [] s []"



definition response_of :: "nat \<Rightarrow> xml option \<Rightarrow> response" where
  "response_of st body = \<lparr>status_code = st, resp_headers = Map.empty, content = body\<rparr>"

definition org_list_el :: xml where
  "org_list_el =
     Element (vcloud ''OrgList'') [] None
       [Element (vcloud ''Org'')
          [(''type'', ''application/vnd.vmware.vcloud.org+xml''), (''name'', ''Acme''),
           (''href'', ''https://vc/api/org/1'')] None []]"

definition org_net_el :: "string \<Rightarrow> xml" where
  "org_net_el n =
     Element (vcloud ''OrgNetwork'') [(''name'', n)] None
       [Element (vcloud ''Configuration'') [] None
          [Element (vcloud ''IpScope'') [] None
             [text_el ''Gateway'' (Some ''10.0.0.1''),
              text_el ''Netmask'' (Some ''255.255.255.0''),
              text_el ''DnsSuffix'' None,
              Element (vcloud ''IpRanges'') [] None
                [Element (vcloud ''IpRange'') [] None
                   [text_el ''StartAddress'' (Some ''10.0.0.2''),
                    text_el ''EndAddress'' (Some ''10.0.0.9'')]]]]]"

definition org_net_of :: "string \<Rightarrow> OrgNet" where
  "org_net_of n =
     \<lparr>OrgNet.name = n, gateway = Some ''10.0.0.1'', netmask = Some ''255.255.255.0'',
      dns = None, ranges = [\<lparr>first = ''10.0.0.2'', last = ''10.0.0.9''\<rparr>]\<rparr>"

definition vdc_el :: xml where
  "vdc_el =
     Element (vcloud ''Vdc'')
       [(''type'', ''application/vnd.vmware.vcloud.vdc+xml''), (''name'', ''vdc1''),
        (''id'', ''urn:vcloud:vdc:1''), (''href'', ''https://vc/api/vdc/1'')] None
       [Element (vcloud ''StorageCapacity'') [] None
          [text_el ''Allocated'' (Some ''100''), text_el ''Used'' (Some ''50'')],
        Element (vcloud ''ComputeCapacity'') [] None
          [Element (vcloud ''Cpu'') [] None [text_el ''Units'' (Some ''MHz'')],
           Element (vcloud ''Memory'') [] None [text_el ''Units'' (Some ''MB'')]],
        Element (vcloud ''ResourceEntities'') [] None
          [entity_el ''application/vnd.vmware.vcloud.vApp+xml'' ''https://vc/api/vApp/1'',
           entity_el ''application/vnd.vmware.vcloud.media+xml'' ''https://vc/api/media/1'',
           entity_el ''application/vnd.vmware.vcloud.vApp+xml'' ''https://vc/api/vApp/2'']]"

text \<open>A server that records the URLs it is asked for.\<close>

definition server :: "string list transport" where
  "server w r =
     ((if req_url r = ''https://vc/api/sessions'' then
         Inr \<lparr>status_code = 200, resp_headers = [VCLOUD_AUTH_HEADER \<mapsto> ''tok''],
              content = Some session_el\<rparr>
       else if req_url r = ''https://vc/api/session'' then Inr (response_of 200 (Some session_el))
       else if req_url r = ''https://vc/api/org/'' then Inr (response_of 200 (Some org_list_el))
       else if req_url r = ''https://vc/api/network/1'' then
         Inr (response_of 200 (Some (org_net_el ''net1'')))
       else if req_url r = ''https://vc/api/network/2'' then
         Inr (response_of 200 (Some (org_net_el ''net2'')))
       else if req_url r = ''https://vc/api/vdc/1'' then Inr (response_of 200 (Some vdc_el))
       else if req_url r = ''https://down/session'' then Inl (ConnectionError ''refused'')
       else Inr (response_of 404 None)),
      w @ [req_url r])"

definition env_root_only :: "string \<rightharpoonup> string" where
  "env_root_only = [''VCLOUD_API_ROOT'' \<mapsto> ''https://vc/api'']"

definition org_list_client :: client where
  "org_list_client =
     client_of (Some [''application/vnd.vmware.vcloud.orgList+xml''
       \<mapsto> [link_of ''application/vnd.vmware.vcloud.orgList+xml'' ''https://vc/api/org/'']])"

definition org_with :: "Link index \<Rightarrow> Org" where
  "org_with d =
     \<lparr>Org.type = ''application/vnd.vmware.vcloud.org+xml'', href = ''https://vc/api/org/1'',
      name = ''Acme'', id_ = Some ''urn:vcloud:org:1'', full_name = Some ''Acme Inc'',
      description = None, links = PyObj d\<rparr>"

definition nets_org :: Org where
  "nets_org =
     org_with [''application/vnd.vmware.vcloud.orgNetwork+xml''
       \<mapsto> [link_of ''application/vnd.vmware.vcloud.orgNetwork+xml'' ''https://vc/api/network/1'',
           link_of ''application/vnd.vmware.vcloud.orgNetwork+xml'' ''https://vc/api/network/2''],
       ''application/vnd.vmware.vcloud.vdc+xml''
       \<mapsto> [link_of ''application/vnd.vmware.vcloud.vdc+xml'' ''https://vc/api/vdc/1'']]"

section \<open>Properties\<close>

subsection \<open>Lookup by name\<close>

lemma org_by_name_none:
  "(\<forall>o1 \<in> set orgs. Org.name o1 \<noteq> n) \<Longrightarrow> org_by_name orgs n = None"
  by (induction orgs) auto

lemma org_by_name_first:
  "(\<forall>p \<in> set pre. Org.name p \<noteq> n) \<Longrightarrow> Org.name o1 = n
     \<Longrightarrow> org_by_name (pre @ o1 # post) n = Some o1"
  by (induction pre) auto

lemma ext_net_by_name_none:
  "(\<forall>en \<in> set ext_nets. ExtNet.name en \<noteq> n) \<Longrightarrow> ext_net_by_name ext_nets n = None"
  by (induction ext_nets) auto

lemma ext_net_by_name_first:
  "(\<forall>p \<in> set pre. ExtNet.name p \<noteq> n) \<Longrightarrow> ExtNet.name en = n
     \<Longrightarrow> ext_net_by_name (pre @ en # post) n = Some en"
  by (induction pre) auto

text \<open>
  C7. \<open>org_by_name\<close> and \<open>ext_net_by_name\<close> return nothing on the empty list and when
  no element has the name; otherwise they return, unchanged, the first element whose name
  equals the argument, whatever follows it (a later element of the same name included).
  Names are compared as they are: no case folding, no trimming.
\<close>

theorem by_name_first_match:
  "org_by_name [] n = None
   \<and> ((\<forall>o1 \<in> set orgs. Org.name o1 \<noteq> n) \<longrightarrow> org_by_name orgs n = None)
   \<and> ((\<forall>p \<in> set pre. Org.name p \<noteq> n) \<and> Org.name o1 = n
        \<longrightarrow> org_by_name (pre @ o1 # post) n = Some o1)
   \<and> ext_net_by_name [] n = None
   \<and> ((\<forall>en \<in> set ext_nets. ExtNet.name en \<noteq> n) \<longrightarrow> ext_net_by_name ext_nets n = None)
   \<and> ((\<forall>p \<in> set epre. ExtNet.name p \<noteq> n) \<and> ExtNet.name en = n
        \<longrightarrow> ext_net_by_name (epre @ en # epost) n = Some en)"
  using org_by_name_none org_by_name_first ext_net_by_name_none ext_net_by_name_first
  by (metis ext_net_by_name.simps(1) org_by_name.simps(1))

theorem by_name_first_match_witness:
  "org_by_name [org_of ''acme'' ''h0'', org_of ''Acme'' ''h1'', org_of ''Acme'' ''h2''] ''Acme''
     = Some (org_of ''Acme'' ''h1'')
   \<and> org_by_name [org_of ''acme'' ''h0'', org_of ''Acme '' ''h1''] ''Acme'' = None
   \<and> ext_net_by_name
        [ext_net_of ''net'' ''h0'', ext_net_of ''Net'' ''h1'', ext_net_of ''Net'' ''h2''] ''Net''
     = Some (ext_net_of ''Net'' ''h1'')
   \<and> ext_net_by_name [ext_net_of ''net'' ''h0''] ''Net'' = None"
  using by_name_first_match [of "''Acme''" "[org_of ''acme'' ''h0'', org_of ''Acme '' ''h1'']"
      "[org_of ''acme'' ''h0'']" "org_of ''Acme'' ''h1''" "[org_of ''Acme'' ''h2'']"
      "[ext_net_of ''net'' ''h0'']" "[ext_net_of ''net'' ''h0'']" "ext_net_of ''Net'' ''h1''"
      "[ext_net_of ''Net'' ''h2'']"]
  by (simp add: org_of_def ext_net_of_def)

subsection \<open>Grouping links and resource entities by type\<close>


lemma rmap_Inr_Cons:
  "rmap f (x # xs) = Inr ys \<longleftrightarrow> (\<exists>y ys'. f x = Inr y \<and> rmap f xs = Inr ys' \<and> ys = y # ys')"
  by (cases "f x"; cases "rmap f xs") auto

lemma rmap_filter:
  "rmap f cs = Inr ls \<Longrightarrow> (\<And>c l. c \<in> set cs \<Longrightarrow> f c = Inr l \<Longrightarrow> P c = Q l)
     \<Longrightarrow> rmap f (filter P cs) = Inr (filter Q ls)"
proof (induction cs arbitrary: ls)
  case Nil
  then show ?case by simp
next
  case (Cons c cs)
  from Cons.prems(1) obtain y ys where y: "f c = Inr y" "rmap f cs = Inr ys" "ls = y # ys"
    unfolding rmap_Inr_Cons by blast
  have "rmap f (filter P cs) = Inr (filter Q ys)"
    using Cons.IH [OF y(2)] Cons.prems(2) by simp
  moreover have "P c = Q y" using Cons.prems(2) y(1) by simp
  ultimately show ?case using y by simp
qed

lemma parse_link_type:
  "parse_link c = Inr l \<Longrightarrow> map_of (attrib c) ''type'' = Some (Link.type l)"
  by (auto simp: parse_link_def Link_new_def split: if_splits option.splits)

lemma parse_resource_entity_type:
  "parse_resource_entity c = Inr re \<Longrightarrow> map_of (attrib c) ''type'' = Some (ResourceEntity.type re)"
  by (auto simp: parse_resource_entity_def ResourceEntity_new_def split: if_splits option.splits)

lemma index_append_apply:
  "index_append res k v k' =
     (if k' = k then Some ((case res k of None \<Rightarrow> [] | Some vs \<Rightarrow> vs) @ [v]) else res k')"
  by (simp add: index_append_def split: option.splits)

lemma grouped_Cons:
  "grouped ty (index_append res (ty l) l) ls k = grouped ty res (l # ls) k"
  by (auto simp: grouped_def index_append_apply split: option.splits)

lemma parse_links_loop_grouped:
  "parse_links_loop cs res = Inr idx
     \<Longrightarrow> \<exists>ls. rmap parse_link cs = Inr ls \<and> (\<forall>k. idx k = grouped Link.type res ls k)"
proof (induction cs arbitrary: res)
  case Nil
  then show ?case by (auto simp: grouped_def split: option.splits)
next
  case (Cons c cs)
  from Cons.prems obtain l where l: "parse_link c = Inr l"
    by (cases "parse_link c") auto
  with Cons.prems have "parse_links_loop cs (index_append res (Link.type l) l) = Inr idx"
    by simp
  from Cons.IH [OF this] obtain ls where
    ls: "rmap parse_link cs = Inr ls"
        "\<forall>k. idx k = grouped Link.type (index_append res (Link.type l) l) ls k"
    by blast
  show ?case using l ls by (auto simp: grouped_Cons)
qed

lemma parse_resource_entities_loop_grouped:
  "parse_resource_entities_loop cs res = Inr idx
     \<Longrightarrow> \<exists>es. rmap parse_resource_entity cs = Inr es
           \<and> (\<forall>k. idx k = grouped ResourceEntity.type res es k)"
proof (induction cs arbitrary: res)
  case Nil
  then show ?case by (auto simp: grouped_def split: option.splits)
next
  case (Cons c cs)
  from Cons.prems obtain re where re: "parse_resource_entity c = Inr re"
    by (cases "parse_resource_entity c") auto
  with Cons.prems have
    "parse_resource_entities_loop cs (index_append res (ResourceEntity.type re) re) = Inr idx"
    by simp
  from Cons.IH [OF this] obtain es where
    es: "rmap parse_resource_entity cs = Inr es"
        "\<forall>k. idx k = grouped ResourceEntity.type (index_append res (ResourceEntity.type re) re) es k"
    by blast
  show ?case using re es by (auto simp: grouped_Cons)
qed

lemma parse_links_grouped:
  assumes "parse_links el = Inr idx"
  shows "\<exists>g. rmap parse_link
               (filter (\<lambda>c. map_of (attrib c) ''type'' = Some k) (findall el (vcloud ''Link'')))
             = Inr g
           \<and> idx k = (if g = [] then None else Some g)"
proof -
  from assms obtain ls where
    ls: "rmap parse_link (findall el (vcloud ''Link'')) = Inr ls"
        "\<forall>k. idx k = grouped Link.type Map.empty ls k"
    unfolding parse_links_def using parse_links_loop_grouped by blast
  have "rmap parse_link
          (filter (\<lambda>c. map_of (attrib c) ''type'' = Some k) (findall el (vcloud ''Link'')))
        = Inr (filter (\<lambda>l. Link.type l = k) ls)"
    using ls(1) by (rule rmap_filter) (auto dest: parse_link_type)
  moreover have "idx k = (if filter (\<lambda>l. Link.type l = k) ls = [] then None
                          else Some (filter (\<lambda>l. Link.type l = k) ls))"
    using ls(2) by (simp add: grouped_def)
  ultimately show ?thesis by blast
qed

lemma parse_resource_entities_grouped:
  assumes "parse_resource_entities el = Inr idx"
  shows "\<exists>p g. find_child el (vcloud ''ResourceEntities'') = Some p
           \<and> rmap parse_resource_entity
               (filter (\<lambda>c. map_of (attrib c) ''type'' = Some k)
                  (findall p (vcloud ''ResourceEntity'')))
             = Inr g
           \<and> idx k = (if g = [] then None else Some g)"
proof -
  from assms obtain p where
    p: "find_child el (vcloud ''ResourceEntities'') = Some p"
       "parse_resource_entities_loop (findall p (vcloud ''ResourceEntity'')) Map.empty = Inr idx"
    by (auto simp: parse_resource_entities_def findall_on_def split: option.splits)
  from parse_resource_entities_loop_grouped [OF p(2)] obtain es where
    es: "rmap parse_resource_entity (findall p (vcloud ''ResourceEntity'')) = Inr es"
        "\<forall>k. idx k = grouped ResourceEntity.type Map.empty es k"
    by blast
  have "rmap parse_resource_entity
          (filter (\<lambda>c. map_of (attrib c) ''type'' = Some k) (findall p (vcloud ''ResourceEntity'')))
        = Inr (filter (\<lambda>l. ResourceEntity.type l = k) es)"
    using es(1) by (rule rmap_filter) (auto dest: parse_resource_entity_type)
  moreover have "idx k = (if filter (\<lambda>l. ResourceEntity.type l = k) es = [] then None
                          else Some (filter (\<lambda>l. ResourceEntity.type l = k) es))"
    using es(2) by (simp add: grouped_def)
  ultimately show ?thesis using p(1) by blast
qed

lemma parse_links_loop_total:
  "rmap parse_link cs = Inr ls \<Longrightarrow> \<exists>idx. parse_links_loop cs res = Inr idx"
proof (induction cs arbitrary: ls res)
  case Nil
  then show ?case by simp
next
  case (Cons c cs)
  from Cons.prems obtain l ls' where "parse_link c = Inr l" "rmap parse_link cs = Inr ls'"
    unfolding rmap_Inr_Cons by blast
  then show ?case using Cons.IH by simp
qed

lemma parse_resource_entities_loop_total:
  "rmap parse_resource_entity cs = Inr es \<Longrightarrow> \<exists>idx. parse_resource_entities_loop cs res = Inr idx"
proof (induction cs arbitrary: es res)
  case Nil
  then show ?case by simp
next
  case (Cons c cs)
  from Cons.prems obtain e es' where
    "parse_resource_entity c = Inr e" "rmap parse_resource_entity cs = Inr es'"
    unfolding rmap_Inr_Cons by blast
  then show ?case using Cons.IH by simp
qed

lemma parse_links_total:
  "rmap parse_link (findall el (vcloud ''Link'')) = Inr ls \<Longrightarrow> \<exists>idx. parse_links el = Inr idx"
  unfolding parse_links_def by (rule parse_links_loop_total)

lemma parse_resource_entities_total:
  "find_child el (vcloud ''ResourceEntities'') = Some p
     \<Longrightarrow> rmap parse_resource_entity (findall p (vcloud ''ResourceEntity'')) = Inr es
     \<Longrightarrow> \<exists>idx. parse_resource_entities el = Inr idx"
  using parse_resource_entities_loop_total [of "findall p (vcloud ''ResourceEntity'')" es Map.empty]
  by (simp add: parse_resource_entities_def findall_on_def)

text \<open>
  C8. When \<open>parse_links\<close> builds an index, what it stores under a key \<open>k\<close> is the
  list of the decoded \<^verbatim>\<open>Link\<close> children whose own \<^verbatim>\<open>type\<close> attribute is \<open>k\<close>, in
  document order (\<open>filter\<close> and \<open>rmap\<close> keep the order of the children), and no entry
  when there is no such child. \<open>parse_resource_entities\<close> does the same with the
  \<^verbatim>\<open>ResourceEntity\<close> children of the \<^verbatim>\<open>ResourceEntities\<close> element. An index is
  built whenever every one of these children decodes.
\<close>

theorem index_groups_in_document_order:
  "(parse_links el = Inr idx \<longrightarrow>
      (\<exists>g. rmap parse_link
              (filter (\<lambda>c. map_of (attrib c) ''type'' = Some k) (findall el (vcloud ''Link'')))
            = Inr g
          \<and> idx k = (if g = [] then None else Some g)))
   \<and> (parse_resource_entities el = Inr eidx \<longrightarrow>
      (\<exists>p g. find_child el (vcloud ''ResourceEntities'') = Some p
          \<and> rmap parse_resource_entity
              (filter (\<lambda>c. map_of (attrib c) ''type'' = Some k)
                 (findall p (vcloud ''ResourceEntity'')))
            = Inr g
          \<and> eidx k = (if g = [] then None else Some g)))
   \<and> (rmap parse_link (findall el (vcloud ''Link'')) = Inr ls
      \<longrightarrow> (\<exists>idx'. parse_links el = Inr idx'))
   \<and> (find_child el (vcloud ''ResourceEntities'') = Some p'
        \<and> rmap parse_resource_entity (findall p' (vcloud ''ResourceEntity'')) = Inr es
      \<longrightarrow> (\<exists>eidx'. parse_resource_entities el = Inr eidx'))"
  using parse_links_grouped [of el idx k] parse_resource_entities_grouped [of el eidx k]
    parse_links_total [of el ls] parse_resource_entities_total [of el p' es]
  by blast

lemmas example_defs = link_el_def link_of_def session_el_def entity_el_def entity_of_def
  vdc_entities_el_def vcloud_def VCLOUD_VERSION_def findall_def find_child_def findall_on_def
  parse_link_def Link_new_def parse_resource_entity_def ResourceEntity_new_def
  unexpected_keyword_def

lemma session_links_parse: "\<exists>idx. parse_links session_el = Inr idx"
  by (simp add: parse_links_def example_defs)

lemma vdc_entities_parse: "\<exists>idx. parse_resource_entities vdc_entities_el = Inr idx"
  by (simp add: parse_resource_entities_def example_defs)

theorem index_groups_in_document_order_witness:
  "\<exists>idx eidx. parse_links session_el = Inr idx
     \<and> idx ''application/vnd.vmware.vcloud.orgList+xml''
         = Some [link_of ''application/vnd.vmware.vcloud.orgList+xml'' ''https://vc/api/org/'',
                 link_of ''application/vnd.vmware.vcloud.orgList+xml'' ''https://vc/api/org2/'']
     \<and> parse_resource_entities vdc_entities_el = Inr eidx
     \<and> eidx ''application/vnd.vmware.vcloud.vApp+xml''
         = Some [entity_of ''application/vnd.vmware.vcloud.vApp+xml'' ''https://vc/api/vApp/1'',
                 entity_of ''application/vnd.vmware.vcloud.vApp+xml'' ''https://vc/api/vApp/2'']"
proof -
  obtain idx where idx: "parse_links session_el = Inr idx"
    using session_links_parse by blast
  obtain eidx where eidx: "parse_resource_entities vdc_entities_el = Inr eidx"
    using vdc_entities_parse by blast
  have "idx ''application/vnd.vmware.vcloud.orgList+xml''
         = Some [link_of ''application/vnd.vmware.vcloud.orgList+xml'' ''https://vc/api/org/'',
                 link_of ''application/vnd.vmware.vcloud.orgList+xml'' ''https://vc/api/org2/'']"
    using index_groups_in_document_order
      [where el = session_el and idx = idx
         and k = "''application/vnd.vmware.vcloud.orgList+xml''"] idx
    by (simp add: example_defs)
  moreover have "eidx ''application/vnd.vmware.vcloud.vApp+xml''
         = Some [entity_of ''application/vnd.vmware.vcloud.vApp+xml'' ''https://vc/api/vApp/1'',
                 entity_of ''application/vnd.vmware.vcloud.vApp+xml'' ''https://vc/api/vApp/2'']"
    using index_groups_in_document_order
      [where el = vdc_entities_el and eidx = eidx
         and k = "''application/vnd.vmware.vcloud.vApp+xml''"] eidx
    by (simp add: example_defs)
  ultimately show ?thesis using idx eidx by blast
qed

subsection \<open>Looking up a media type\<close>

text \<open>The index of a client is always one that \<open>parse_links\<close> built.\<close>

lemma fetch_initial_links_parsed:
  "fetch_initial_links tr self w = (Inr idx, w') \<Longrightarrow> \<exists>el. parse_links el = Inr idx"
  by (auto simp: fetch_initial_links_def fromstring_def
           split: prod.splits sum.splits option.splits)

lemma init_links_parsed:
  "init tr env r w = (Inr c, w')
     \<Longrightarrow> client.links c = None \<or> (\<exists>el idx. client.links c = Some idx \<and> parse_links el = Inr idx)"
  by (auto simp: init_def Let_def token_setter_def
           split: option.splits prod.splits sum.splits if_splits
           dest: fetch_initial_links_parsed)

lemma login_links_parsed:
  "login tr self u p w = (Inr (), c', w')
     \<Longrightarrow> \<exists>el idx. client.links c' = Some idx \<and> parse_links el = Inr idx"
  by (auto simp: login_def Let_def token_setter_def
           split: option.splits prod.splits sum.splits if_splits
           dest: fetch_initial_links_parsed)

lemma rmap_Cons_Inr:
  "rmap f (c # cs) = Inr g \<Longrightarrow> \<exists>l ls. f c = Inr l \<and> g = l # ls"
  unfolding rmap_Inr_Cons by blast

lemma parse_link_href:
  "parse_link c = Inr l \<Longrightarrow> map_of (attrib c) ''href'' = Some (Link.href l)"
  by (auto simp: parse_link_def Link_new_def split: if_splits option.splits)

text \<open>
  C4. \<open>lookup\<close> resolves the short name \<open>t\<close> to
  \<^verbatim>\<open>application/vnd.vmware.<t>+xml\<close> and returns the href of the first link stored
  under that key. When the index is the one \<open>parse_links\<close> built from a document and it
  has the key, that link is the first \<^verbatim>\<open>Link\<close> child of that type in document order,
  whatever follows it.
\<close>

theorem lookup_first_link:
  "(client.links self = Some idx \<and> idx (''application/vnd.vmware.'' @ t @ ''+xml'') = Some (l # ls)
      \<longrightarrow> lookup self t = Inr (Link.href l))
   \<and> (client.links self = Some idx \<and> parse_links el = Inr idx
        \<and> idx (''application/vnd.vmware.'' @ t @ ''+xml'') \<noteq> None
      \<longrightarrow> (\<exists>c cs h.
             filter (\<lambda>c. map_of (attrib c) ''type''
                          = Some (''application/vnd.vmware.'' @ t @ ''+xml''))
               (findall el (vcloud ''Link'')) = c # cs
             \<and> map_of (attrib c) ''href'' = Some h
             \<and> lookup self t = Inr h))"
proof (intro conjI impI)
  assume "client.links self = Some idx \<and> idx (''application/vnd.vmware.'' @ t @ ''+xml'') = Some (l # ls)"
  then show "lookup self t = Inr (Link.href l)"
    by (simp add: lookup_def)
next
  let ?k = "''application/vnd.vmware.'' @ t @ ''+xml''"
  let ?cs = "filter (\<lambda>c. map_of (attrib c) ''type'' = Some ?k) (findall el (vcloud ''Link''))"
  assume a: "client.links self = Some idx \<and> parse_links el = Inr idx \<and> idx ?k \<noteq> None"
  then obtain g where g: "rmap parse_link ?cs = Inr g" "idx ?k = (if g = [] then None else Some g)"
    using parse_links_grouped [of el idx ?k] by blast
  with a have "g \<noteq> []" by auto
  then obtain l ls where lls: "g = l # ls" by (cases g) auto
  with g(1) have "?cs \<noteq> []" by auto
  then obtain c cs where ccs: "?cs = c # cs" by (cases ?cs) auto
  with g(1) lls have pl: "parse_link c = Inr l"
    using rmap_Cons_Inr [of parse_link c cs g] by auto
  have "lookup self t = Inr (Link.href l)"
    using a g(2) lls by (simp add: lookup_def)
  with ccs parse_link_href [OF pl]
  show "\<exists>c cs h. ?cs = c # cs \<and> map_of (attrib c) ''href'' = Some h \<and> lookup self t = Inr h"
    by blast
qed

theorem lookup_first_link_witness:
  "\<exists>idx. parse_links session_el = Inr idx
     \<and> lookup (client_of (Some idx)) ''vcloud.orgList'' = Inr ''https://vc/api/org/''"
proof -
  obtain idx where idx: "parse_links session_el = Inr idx"
    using session_links_parse by blast
  have k: "idx ''application/vnd.vmware.vcloud.orgList+xml'' \<noteq> None"
    using parse_links_grouped [OF idx, of "''application/vnd.vmware.vcloud.orgList+xml''"]
    by (auto simp: example_defs)
  have "lookup (client_of (Some idx)) ''vcloud.orgList'' = Inr ''https://vc/api/org/''"
    using lookup_first_link [where self = "client_of (Some idx)" and idx = idx
        and el = session_el and t = "''vcloud.orgList''"] idx k
    by (auto simp: client_of_def example_defs)
  with idx show ?thesis by blast
qed

text \<open>
  C5, as amended. When the index has no entry for the resolved media type, \<open>lookup\<close>
  raises \<^verbatim>\<open>APIError\<close> (the class that also wraps HTTP failures) with the message
  \<^verbatim>\<open>Don't know anything about type '<t>'\<close>.
\<close>

theorem lookup_unknown_type:
  "client.links self = Some idx \<Longrightarrow> idx (''application/vnd.vmware.'' @ t @ ''+xml'') = None
     \<Longrightarrow> lookup self t
         = Inl (APIError (Message
             (''Don't know anything about type '' @ [CHR 0x27] @ t @ [CHR 0x27])))"
  by (simp add: lookup_def)

theorem lookup_unknown_type_witness:
  "client.links (client_of (Some Map.empty)) = Some Map.empty
   \<and> (Map.empty :: Link index) (''application/vnd.vmware.'' @ ''vcloud.orgList'' @ ''+xml'') = None
   \<and> lookup (client_of (Some Map.empty)) ''vcloud.orgList''
     = Inl (APIError (Message
         (''Don't know anything about type '' @ [CHR 0x27] @ ''vcloud.orgList'' @ [CHR 0x27])))"
  using lookup_unknown_type [of "client_of (Some Map.empty)" Map.empty "''vcloud.orgList''"]
  by (simp add: client_of_def)

text \<open>
  The exception of an unknown type is an \<^verbatim>\<open>APIError\<close>, not an error kind of its own.
\<close>

theorem lookup_error_is_APIError:
  "lookup (client_of (Some [''application/vnd.vmware.admin.vcloud+xml''
       \<mapsto> [link_of ''application/vnd.vmware.admin.vcloud+xml'' ''https://vc/api/admin/'']]))
     ''vcloud.orgList''
     = Inl (APIError (Message
         (''Don't know anything about type '' @ [CHR 0x27] @ ''vcloud.orgList'' @ [CHR 0x27])))"
  by (simp add: lookup_def client_of_def)

subsection \<open>Mandatory and optional fields of the decoders\<close>

lemma attrib_getitem_None: "map_of (attrib el) k = None \<Longrightarrow> attrib_getitem el k = Inl (KeyError k)"
  by (simp add: attrib_getitem_def)

lemma rbind_Inl_iff: "(\<exists>e. rbind m f = Inl e) \<longleftrightarrow> (\<exists>e. m = Inl e) \<or> (\<exists>x. m = Inr x \<and> (\<exists>e. f x = Inl e))"
  by (cases m) auto







lemma parse_org_short_Inr:
  "parse_org_short el = Inr o1 \<longleftrightarrow>
     (\<exists>t h n.
        \<not> unexpected_keyword (attrib el)
            [''type'', ''href'', ''name'', ''id'', ''full_name'', ''description'', ''links'']
        \<and> map_of (attrib el) ''type'' = Some t \<and> map_of (attrib el) ''href'' = Some h
        \<and> map_of (attrib el) ''name'' = Some n
        \<and> o1 = \<lparr>Org.type = t, href = h, name = n, id_ = map_of (attrib el) ''id'',
                  full_name = map_of (attrib el) ''full_name'',
                  description = map_of (attrib el) ''description'',
                  links = str_field (attrib el) ''links''\<rparr>)"
  by (auto simp: parse_org_short_def Org_new_def split: option.splits)






















subsection \<open>Requests and HTTP errors\<close>

text \<open>
  C6, as amended. With \<^verbatim>\<open>_raise\<close> true, a response whose status is in 400..599 becomes
  an \<^verbatim>\<open>APIError\<close> that wraps the \<^verbatim>\<open>HTTPError\<close> carrying the response, and a response
  with any other status is returned; with \<^verbatim>\<open>_raise\<close> false every response is
  returned. An exception of the transport itself, raised before there is a response, is not
  wrapped, whatever \<^verbatim>\<open>_raise\<close> is.
\<close>

theorem req_error_translation:
  "(tr w \<lparr>req_method = m, req_url = u, req_headers = headers self, req_auth = a\<rparr> = (Inr res, w')
      \<longrightarrow> (400 \<le> status_code res \<and> status_code res < 600
            \<longrightarrow> req tr self m u True a w = (Inl (APIError (Wrapped (HTTPError res))), w'))
          \<and> (\<not> (400 \<le> status_code res \<and> status_code res < 600)
            \<longrightarrow> req tr self m u True a w = (Inr res, w'))
          \<and> req tr self m u False a w = (Inr res, w'))
   \<and> (tr w \<lparr>req_method = m, req_url = u, req_headers = headers self, req_auth = a\<rparr> = (Inl exc, w')
      \<longrightarrow> req tr self m u r a w = (Inl (Raw exc), w'))"
  by (simp add: req_def custom_raise_for_status_def raise_for_status_def)

theorem req_error_translation_witness:
  "req server (client_of None) ''get'' ''https://vc/api/nothing'' True None []
     = (Inl (APIError (Wrapped (HTTPError (response_of 404 None)))), [''https://vc/api/nothing''])
   \<and> req server (client_of None) ''get'' ''https://vc/api/nothing'' False None []
     = (Inr (response_of 404 None), [''https://vc/api/nothing''])
   \<and> req server (client_of None) ''get'' ''https://vc/api/session'' True None []
     = (Inr (response_of 200 (Some session_el)), [''https://vc/api/session''])
   \<and> req server (client_of None) ''get'' ''https://down/session'' True None []
     = (Inl (Raw (ConnectionError ''refused'')), [''https://down/session''])"
  using
    req_error_translation [where tr = server and w = "[]" and self = "client_of None"
      and m = "''get''" and u = "''https://vc/api/nothing''" and a = None
      and res = "response_of 404 None" and w' = "[''https://vc/api/nothing'']"]
    req_error_translation [where tr = server and w = "[]" and self = "client_of None"
      and m = "''get''" and u = "''https://vc/api/session''" and a = None
      and res = "response_of 200 (Some session_el)" and w' = "[''https://vc/api/session'']"]
    req_error_translation [where tr = server and w = "[]" and self = "client_of None"
      and m = "''get''" and u = "''https://down/session''" and a = None and r = True
      and exc = "ConnectionError ''refused''" and w' = "[''https://down/session'']"]
  by (simp add: server_def response_of_def)

text \<open>
  A 304 response is not 2xx and is returned without an error; a connection failure leaves
  \<open>req\<close> as the transport raised it.
\<close>

theorem req_non_2xx_counterexample:
  "req (\<lambda>w r. (Inr (response_of 304 None), w)) (client_of None) ''get''
       ''https://vc/api/session'' True None ()
     = (Inr (response_of 304 None), ())
   \<and> req (\<lambda>w r. (Inl (ConnectionError ''refused''), w)) (client_of None) ''get''
       ''https://vc/api/session'' True None ()
     = (Inl (Raw (ConnectionError ''refused'')), ())"
  by (simp add: req_def custom_raise_for_status_def raise_for_status_def response_of_def)

subsection \<open>The token and the authorization header\<close>

lemma envkey_auth_token: "envkey ''auth_token'' = ''VCLOUD_AUTH_TOKEN''"
  by (simp add: envkey_def upper_chr_def)

lemma envkey_api_root: "envkey ''api_root'' = ''VCLOUD_API_ROOT''"
  by (simp add: envkey_def upper_chr_def)

lemma token_setter_header:
  "headers (token_setter self tok) VCLOUD_AUTH_HEADER = Some tok \<and> token (token_setter self tok) = tok"
  by (simp add: token_setter_def)

lemma init_token:
  assumes "init tr env r w = (Inr c, w')"
  shows "token c = env ''VCLOUD_AUTH_TOKEN'' \<and> headers c VCLOUD_AUTH_HEADER = Some (env ''VCLOUD_AUTH_TOKEN'')"
  using assms
  by (auto simp: init_def Let_def token_setter_def envget_def envkey_auth_token
           split: option.splits prod.splits sum.splits if_splits)

lemma login_token:
  assumes "login tr self u p w = (res, c', w')"
    and "headers self VCLOUD_AUTH_HEADER = Some (token self)"
  shows "headers c' VCLOUD_AUTH_HEADER = Some (token c')"
  using assms
  by (auto simp: login_def Let_def token_setter_def
           split: option.splits prod.splits sum.splits if_splits)

lemma login_token_ok:
  assumes "login tr self u p w = (Inr (), c', w')"
  shows "\<exists>tok. token c' = Some tok \<and> headers c' VCLOUD_AUTH_HEADER = Some (Some tok)"
  using assms
  by (auto simp: login_def Let_def token_setter_def
           split: option.splits prod.splits sum.splits if_splits)

text \<open>
  C10. The setter of \<^verbatim>\<open>token\<close> stores the value and writes it into the session header
  \<^verbatim>\<open>x-vcloud-authorization\<close>, whatever the value is. A client that \<open>init\<close> returns
  has the value of \<^verbatim>\<open>VCLOUD_AUTH_TOKEN\<close> as its token and in the header: when the
  variable is unset, the header is present and holds \<^verbatim>\<open>None\<close>. \<open>login\<close> keeps the
  header equal to the token, and after a successful login both hold the token of the
  response.
\<close>

theorem auth_header_follows_token:
  "headers (token_setter self tok) VCLOUD_AUTH_HEADER = Some tok
   \<and> token (token_setter self tok) = tok
   \<and> (init tr env r w = (Inr c, w')
      \<longrightarrow> token c = env ''VCLOUD_AUTH_TOKEN''
          \<and> headers c VCLOUD_AUTH_HEADER = Some (env ''VCLOUD_AUTH_TOKEN''))
   \<and> (login tr self u p w = (res, c', w'') \<and> headers self VCLOUD_AUTH_HEADER = Some (token self)
      \<longrightarrow> headers c' VCLOUD_AUTH_HEADER = Some (token c'))
   \<and> (login tr self u p w = (Inr (), c', w'')
      \<longrightarrow> (\<exists>tok'. token c' = Some tok' \<and> headers c' VCLOUD_AUTH_HEADER = Some (Some tok')))"
  using token_setter_header [of self tok] init_token [of tr env r w c w']
    login_token [of tr self u p w res c' w''] login_token_ok [of tr self u p w c' w'']
  by blast


lemmas server_defs = server_def response_of_def req_def custom_raise_for_status_def
  raise_for_status_def ok_def url_def fromstring_def

lemma init_example:
  "\<exists>c w'. init server env_root_only None [] = (Inr c, w')"
  by (simp add: init_def logged_in_def fetch_initial_links_def server_defs env_root_only_def
        envget_def envkey_api_root envkey_auth_token token_setter_def parse_links_def
        example_defs)

lemma login_example:
  "\<exists>c w'. login server (token_setter (client_of None) None) ''user'' ''secret'' [] = (Inr (), c, w')"
  by (simp add: login_def fetch_initial_links_def server_defs token_setter_def client_of_def
        parse_links_def example_defs VCLOUD_AUTH_HEADER_def)

theorem auth_header_follows_token_witness:
  "\<exists>c w' c' w''.
     init server env_root_only None [] = (Inr c, w')
     \<and> token c = None \<and> headers c VCLOUD_AUTH_HEADER = Some None
     \<and> login server (token_setter (client_of None) None) ''user'' ''secret'' [] = (Inr (), c', w'')
     \<and> headers (token_setter (client_of None) None) VCLOUD_AUTH_HEADER
         = Some (token (token_setter (client_of None) None))
     \<and> headers c' VCLOUD_AUTH_HEADER = Some (token c')"
proof -
  obtain c w' where c: "init server env_root_only None [] = (Inr c, w')"
    using init_example by blast
  obtain c' w'' where c':
    "login server (token_setter (client_of None) None) ''user'' ''secret'' [] = (Inr (), c', w'')"
    using login_example by blast
  have "token c = None \<and> headers c VCLOUD_AUTH_HEADER = Some None"
    using auth_header_follows_token [where tr = server and env = env_root_only and r = None
        and w = "[]" and c = c and w' = w'] c
    by (simp add: env_root_only_def)
  moreover have "headers (token_setter (client_of None) None) VCLOUD_AUTH_HEADER
         = Some (token (token_setter (client_of None) None))
       \<and> headers c' VCLOUD_AUTH_HEADER = Some (token c')"
    using auth_header_follows_token [where tr = server
        and self = "token_setter (client_of None) None" and tok = None and u = "''user''"
        and p = "''secret''" and w = "[]" and res = "Inr ()" and c' = c' and w'' = w''] c'
    by (simp add: token_setter_def)
  ultimately show ?thesis using c c' by blast
qed

subsection \<open>Retrieving an org by name\<close>

text \<open>
  C1, as amended. \<open>org\<close> fetches the org list first: when that fails, \<open>org\<close> fails
  with the same exception and sends nothing else. When the list has no org of the name,
  \<open>org\<close> fails after the list request alone, and the exception is the
  \<^verbatim>\<open>AttributeError\<close> of reading \<^verbatim>\<open>href\<close> from \<^verbatim>\<open>None\<close>. Otherwise it requests the
  href of the first org of that name and decodes the response.
\<close>

theorem org_absent_name:
  "(org_list tr self w = (Inl e, w') \<longrightarrow> org tr self n w = (Inl e, w'))
   \<and> (org_list tr self w = (Inr orgs, w') \<and> (\<forall>o1 \<in> set orgs. Org.name o1 \<noteq> n)
      \<longrightarrow> org tr self n w = (Inl (AttributeError ''href''), w'))
   \<and> (org_list tr self w = (Inr (pre @ ob # post), w')
        \<and> (\<forall>o1 \<in> set pre. Org.name o1 \<noteq> n) \<and> Org.name ob = n
      \<longrightarrow> org tr self n w
          = (case req tr self ''get'' (Org.href ob) True None w' of
               (Inl e', w'') \<Rightarrow> (Inl e', w'')
             | (Inr res, w'') \<Rightarrow> (rbind (fromstring (content res)) parse_org, w'')))"
  by (simp add: org_def org_by_name_none org_by_name_first)

lemma org_list_example:
  "org_list server org_list_client []
     = (Inr [org_of ''Acme'' ''https://vc/api/org/1''], [''https://vc/api/org/''])"
  by (simp add: org_list_def lookup_def org_list_client_def client_of_def link_of_def
        server_defs org_list_el_def parse_org_list_def parse_org_short_def Org_new_def
        org_of_def vcloud_def VCLOUD_VERSION_def findall_def unexpected_keyword_def
        str_field_def)

theorem org_absent_name_witness:
  "org_list server org_list_client []
     = (Inr [org_of ''Acme'' ''https://vc/api/org/1''], [''https://vc/api/org/''])
   \<and> org server org_list_client ''acme'' [] = (Inl (AttributeError ''href''), [''https://vc/api/org/''])
   \<and> org_list server (client_of (Some Map.empty)) []
       = (Inl (APIError (Message
            (''Don't know anything about type '' @ [CHR 0x27] @ ''vcloud.orgList'' @ [CHR 0x27]))),
          [])
   \<and> org server (client_of (Some Map.empty)) ''Acme'' []
       = (Inl (APIError (Message
            (''Don't know anything about type '' @ [CHR 0x27] @ ''vcloud.orgList'' @ [CHR 0x27]))),
          [])
   \<and> org server org_list_client ''Acme'' []
       = (Inl (APIError (Wrapped (HTTPError (response_of 404 None)))),
          [''https://vc/api/org/'', ''https://vc/api/org/1''])"
  using
    org_absent_name [where tr = server and self = org_list_client and w = "[]"
      and orgs = "[org_of ''Acme'' ''https://vc/api/org/1'']" and w' = "[''https://vc/api/org/'']"
      and n = "''acme''"]
    org_absent_name [where tr = server and self = "client_of (Some Map.empty)" and w = "[]"
      and w' = "[]" and n = "''Acme''"
      and e = "APIError (Message
            (''Don't know anything about type '' @ [CHR 0x27] @ ''vcloud.orgList'' @ [CHR 0x27]))"]
    org_absent_name [where tr = server and self = org_list_client and w = "[]"
      and pre = "[]" and ob = "org_of ''Acme'' ''https://vc/api/org/1''" and post = "[]"
      and w' = "[''https://vc/api/org/'']" and n = "''Acme''"]
    org_list_example
  by (simp add: org_list_def lookup_def client_of_def org_of_def server_defs)

text \<open>
  For a name that is not in the list the exception is an \<^verbatim>\<open>AttributeError\<close>: nothing
  promotes the absent value to an error of its own.
\<close>

theorem org_absent_name_counterexample:
  "org server org_list_client ''Other'' [] = (Inl (AttributeError ''href''), [''https://vc/api/org/''])"
  using org_list_example by (simp add: org_def org_of_def)

subsection \<open>Listing the networks and datacenters of an org\<close>

inductive_simps fetched_Nil: "fetched_in_order tr self decode w [] xs w'"
inductive_simps fetched_Cons: "fetched_in_order tr self decode w (l # ls) xs w'"

lemma fetched_length: "fetched_in_order tr self decode w ls xs w' \<Longrightarrow> length xs = length ls"
  by (induction rule: fetched_in_order.induct) auto

lemma org_nets_loop_fetched:
  "org_nets_loop tr self ls acc w = (Inr nets, w')
     \<longleftrightarrow> (\<exists>xs. nets = acc @ xs \<and> fetched_in_order tr self parse_org_nets w ls xs w')"
proof (induction ls arbitrary: acc w)
  case Nil
  show ?case by (auto simp: fetched_Nil)
next
  case (Cons l ls)
  show ?case
  proof (cases "req tr self ''get'' (Link.href l) True None w")
    case (Pair r wa)
    show ?thesis
    proof (cases r)
      case (Inl e)
      with Pair show ?thesis by (simp add: fetched_Cons)
    next
      case (Inr res)
      show ?thesis
      proof (cases "rbind (fromstring (content res)) parse_org_nets")
        case (Inl e)
        with Pair \<open>r = Inr res\<close> show ?thesis
          by (auto simp: fetched_Cons fromstring_def split: option.splits)
      next
        case dec: (Inr net)
        then obtain el where el: "content res = Some el" "parse_org_nets el = Inr net"
          by (auto simp: fromstring_def split: option.splits)
        have "org_nets_loop tr self (l # ls) acc w = org_nets_loop tr self ls (acc @ [net]) wa"
          using Pair Inr dec by simp
        also have "\<dots> = (Inr nets, w') \<longleftrightarrow>
            (\<exists>xs. nets = (acc @ [net]) @ xs \<and> fetched_in_order tr self parse_org_nets wa ls xs w')"
          by (rule Cons.IH)
        also have "\<dots> \<longleftrightarrow>
            (\<exists>xs. nets = acc @ xs \<and> fetched_in_order tr self parse_org_nets w (l # ls) xs w')"
          using Pair Inr el by (auto simp: fetched_Cons)
        finally show ?thesis .
      qed
    qed
  qed
qed

lemma org_vdcs_loop_fetched:
  "org_vdcs_loop tr self ls acc w = (Inr vdcs, w')
     \<longleftrightarrow> (\<exists>xs. vdcs = acc @ xs \<and> fetched_in_order tr self parse_org_vdcs w ls xs w')"
proof (induction ls arbitrary: acc w)
  case Nil
  show ?case by (auto simp: fetched_Nil)
next
  case (Cons l ls)
  show ?case
  proof (cases "req tr self ''get'' (Link.href l) True None w")
    case (Pair r wa)
    show ?thesis
    proof (cases r)
      case (Inl e)
      with Pair show ?thesis by (simp add: fetched_Cons)
    next
      case (Inr res)
      show ?thesis
      proof (cases "rbind (fromstring (content res)) parse_org_vdcs")
        case (Inl e)
        with Pair \<open>r = Inr res\<close> show ?thesis
          by (auto simp: fetched_Cons fromstring_def split: option.splits)
      next
        case dec: (Inr vdc)
        then obtain el where el: "content res = Some el" "parse_org_vdcs el = Inr vdc"
          by (auto simp: fromstring_def split: option.splits)
        have "org_vdcs_loop tr self (l # ls) acc w = org_vdcs_loop tr self ls (acc @ [vdc]) wa"
          using Pair Inr dec by simp
        also have "\<dots> = (Inr vdcs, w') \<longleftrightarrow>
            (\<exists>xs. vdcs = (acc @ [vdc]) @ xs \<and> fetched_in_order tr self parse_org_vdcs wa ls xs w')"
          by (rule Cons.IH)
        also have "\<dots> \<longleftrightarrow>
            (\<exists>xs. vdcs = acc @ xs \<and> fetched_in_order tr self parse_org_vdcs w (l # ls) xs w')"
          using Pair Inr el by (auto simp: fetched_Cons)
        finally show ?thesis .
      qed
    qed
  qed
qed


lemma org_nets_no_entry:
  "Org.links og = PyObj d \<Longrightarrow> d NET = None
     \<Longrightarrow> org_nets tr self og w = (Inr [], og\<lparr>Org.links := PyObj (d(NET \<mapsto> []))\<rparr>, w)"
  by (simp add: org_nets_def index_getitem_def NET_def)

lemma org_vdcs_no_entry:
  "Org.links og = PyObj d \<Longrightarrow> d VDC = None
     \<Longrightarrow> org_vdcs tr self og w = (Inr [], og\<lparr>Org.links := PyObj (d(VDC \<mapsto> []))\<rparr>, w)"
  by (simp add: org_vdcs_def index_getitem_def VDC_def)

lemma org_nets_entry:
  "Org.links og = PyObj d \<Longrightarrow> d NET = Some ls
     \<Longrightarrow> org_nets tr self og w
         = (fst (org_nets_loop tr self ls [] w), og, snd (org_nets_loop tr self ls [] w))"
  by (simp add: org_nets_def index_getitem_def NET_def split: prod.splits)

lemma org_vdcs_entry:
  "Org.links og = PyObj d \<Longrightarrow> d VDC = Some ls
     \<Longrightarrow> org_vdcs tr self og w
         = (fst (org_vdcs_loop tr self ls [] w), og, snd (org_vdcs_loop tr self ls [] w))"
  by (simp add: org_vdcs_def index_getitem_def VDC_def split: prod.splits)

lemma org_nets_fetched:
  assumes "Org.links og = PyObj d" and "d NET = Some ls"
  shows "fst (org_nets tr self og w) = Inr nets \<and> snd (snd (org_nets tr self og w)) = w'
           \<longleftrightarrow> fetched_in_order tr self parse_org_nets w ls nets w'"
  using org_nets_loop_fetched [of tr self ls "[]" w nets w']
  by (simp add: org_nets_entry [OF assms] prod_eq_iff)

lemma org_vdcs_fetched:
  assumes "Org.links og = PyObj d" and "d VDC = Some ls"
  shows "fst (org_vdcs tr self og w) = Inr vdcs \<and> snd (snd (org_vdcs tr self og w)) = w'
           \<longleftrightarrow> fetched_in_order tr self parse_org_vdcs w ls vdcs w'"
  using org_vdcs_loop_fetched [of tr self ls "[]" w vdcs w']
  by (simp add: org_vdcs_entry [OF assms] prod_eq_iff)

text \<open>
  A record without an index, as the summary decoder returns it, cannot be listed.
\<close>

lemma org_nets_without_index:
  "Org.links og = PyNone \<or> Org.links og = PyStr s
     \<Longrightarrow> org_nets tr self og w = (Inl TypeError, og, w)
       \<and> org_vdcs tr self og w = (Inl TypeError, og, w)"
  by (auto simp: org_nets_def org_vdcs_def)

lemma summary_org_has_no_index:
  "parse_org_short el = Inr og \<Longrightarrow> Org.links og = PyNone \<or> (\<exists>s. Org.links og = PyStr s)"
  by (auto simp: parse_org_short_Inr str_field_def split: option.splits)

text \<open>
  C9. For an org whose index has no entry for the media type, \<open>org_nets\<close> and
  \<open>org_vdcs\<close> return the empty list and send no request. When the index has the links
  \<open>ls\<close> for the media type, they return the list \<open>nets\<close> exactly when one request per
  link, in link order, is answered and decoded to the elements of \<open>nets\<close> in the same
  order; the result has one record per link.
\<close>

theorem org_nets_vdcs_in_link_order:
  "(Org.links og = PyObj d \<and> d ''application/vnd.vmware.vcloud.orgNetwork+xml'' = None
      \<longrightarrow> fst (org_nets tr self og w) = Inr [] \<and> snd (snd (org_nets tr self og w)) = w)
   \<and> (Org.links og = PyObj d \<and> d ''application/vnd.vmware.vcloud.vdc+xml'' = None
      \<longrightarrow> fst (org_vdcs tr self og w) = Inr [] \<and> snd (snd (org_vdcs tr self og w)) = w)
   \<and> (Org.links og = PyObj d \<and> d ''application/vnd.vmware.vcloud.orgNetwork+xml'' = Some ls
      \<longrightarrow> (fst (org_nets tr self og w) = Inr nets \<and> snd (snd (org_nets tr self og w)) = w'
             \<longleftrightarrow> fetched_in_order tr self parse_org_nets w ls nets w')
          \<and> (fst (org_nets tr self og w) = Inr nets \<longrightarrow> length nets = length ls))
   \<and> (Org.links og = PyObj d \<and> d ''application/vnd.vmware.vcloud.vdc+xml'' = Some ls
      \<longrightarrow> (fst (org_vdcs tr self og w) = Inr vdcs \<and> snd (snd (org_vdcs tr self og w)) = w'
             \<longleftrightarrow> fetched_in_order tr self parse_org_vdcs w ls vdcs w')
          \<and> (fst (org_vdcs tr self og w) = Inr vdcs \<longrightarrow> length vdcs = length ls))"
proof (intro conjI impI)
  assume a: "Org.links og = PyObj d \<and> d ''application/vnd.vmware.vcloud.orgNetwork+xml'' = Some ls"
  then show "fst (org_nets tr self og w) = Inr nets \<and> snd (snd (org_nets tr self og w)) = w'
             \<longleftrightarrow> fetched_in_order tr self parse_org_nets w ls nets w'"
    using org_nets_fetched [of og d ls tr self w nets w'] by (simp add: NET_def)
  assume "fst (org_nets tr self og w) = Inr nets"
  then have "fetched_in_order tr self parse_org_nets w ls nets (snd (snd (org_nets tr self og w)))"
    using a org_nets_fetched [of og d ls tr self w nets "snd (snd (org_nets tr self og w))"]
    by (simp add: NET_def)
  then show "length nets = length ls" by (rule fetched_length)
next
  assume a: "Org.links og = PyObj d \<and> d ''application/vnd.vmware.vcloud.vdc+xml'' = Some ls"
  then show "fst (org_vdcs tr self og w) = Inr vdcs \<and> snd (snd (org_vdcs tr self og w)) = w'
             \<longleftrightarrow> fetched_in_order tr self parse_org_vdcs w ls vdcs w'"
    using org_vdcs_fetched [of og d ls tr self w vdcs w'] by (simp add: VDC_def)
  assume "fst (org_vdcs tr self og w) = Inr vdcs"
  then have "fetched_in_order tr self parse_org_vdcs w ls vdcs (snd (snd (org_vdcs tr self og w)))"
    using a org_vdcs_fetched [of og d ls tr self w vdcs "snd (snd (org_vdcs tr self og w))"]
    by (simp add: VDC_def)
  then show "length vdcs = length ls" by (rule fetched_length)
qed (simp_all add: org_nets_def org_vdcs_def index_getitem_def split: prod.splits)

lemmas decode_defs = parse_org_nets_def parse_ip_ranges_def find_on_def text_on_def
  attrib_getitem_def findall_on_def org_net_el_def org_net_of_def text_el_def
  parse_org_vdcs_def capacity_def vdc_el_def parse_links_def parse_resource_entities_def
  example_defs

lemma org_nets_example:
  "org_nets server (client_of None) nets_org []
     = (Inr [org_net_of ''net1'', org_net_of ''net2''], nets_org,
        [''https://vc/api/network/1'', ''https://vc/api/network/2''])"
  by (simp add: org_nets_def index_getitem_def nets_org_def org_with_def server_defs
        client_of_def decode_defs)

lemma org_vdcs_example:
  "\<exists>vdc. org_vdcs server (client_of None) nets_org []
           = (Inr [vdc], nets_org, [''https://vc/api/vdc/1''])
         \<and> OrgVdc.name vdc = ''vdc1''
         \<and> storage vdc ''Allocated'' = Some (Some ''100'')
         \<and> storage vdc ''Used'' = Some (Some ''50'')"
  by (simp add: org_vdcs_def index_getitem_def nets_org_def org_with_def server_defs
        client_of_def decode_defs)

theorem org_nets_vdcs_in_link_order_witness:
  "fst (org_nets server (client_of None) (org_with Map.empty) []) = Inr []
   \<and> snd (snd (org_nets server (client_of None) (org_with Map.empty) [])) = []
   \<and> fst (org_vdcs server (client_of None) (org_with Map.empty) []) = Inr []
   \<and> snd (snd (org_vdcs server (client_of None) (org_with Map.empty) [])) = []
   \<and> fetched_in_order server (client_of None) parse_org_nets []
        [link_of ''application/vnd.vmware.vcloud.orgNetwork+xml'' ''https://vc/api/network/1'',
         link_of ''application/vnd.vmware.vcloud.orgNetwork+xml'' ''https://vc/api/network/2'']
        [org_net_of ''net1'', org_net_of ''net2'']
        [''https://vc/api/network/1'', ''https://vc/api/network/2'']
   \<and> (\<exists>vdc. fetched_in_order server (client_of None) parse_org_vdcs []
          [link_of ''application/vnd.vmware.vcloud.vdc+xml'' ''https://vc/api/vdc/1''] [vdc]
          [''https://vc/api/vdc/1'']
        \<and> storage vdc ''Allocated'' = Some (Some ''100''))"
proof -
  obtain vdc where vdc:
    "org_vdcs server (client_of None) nets_org [] = (Inr [vdc], nets_org, [''https://vc/api/vdc/1''])"
    "storage vdc ''Allocated'' = Some (Some ''100'')"
    using org_vdcs_example by blast
  have "fst (org_nets server (client_of None) (org_with Map.empty) []) = Inr []
      \<and> snd (snd (org_nets server (client_of None) (org_with Map.empty) [])) = []
      \<and> fst (org_vdcs server (client_of None) (org_with Map.empty) []) = Inr []
      \<and> snd (snd (org_vdcs server (client_of None) (org_with Map.empty) [])) = []"
    using org_nets_vdcs_in_link_order [where og = "org_with Map.empty" and d = Map.empty
        and tr = server and self = "client_of None" and w = "[]"]
    by (simp add: org_with_def)
  moreover have "fetched_in_order server (client_of None) parse_org_nets []
        [link_of ''application/vnd.vmware.vcloud.orgNetwork+xml'' ''https://vc/api/network/1'',
         link_of ''application/vnd.vmware.vcloud.orgNetwork+xml'' ''https://vc/api/network/2'']
        [org_net_of ''net1'', org_net_of ''net2'']
        [''https://vc/api/network/1'', ''https://vc/api/network/2'']"
    using org_nets_vdcs_in_link_order [where og = nets_org and tr = server
        and self = "client_of None" and w = "[]"
        and d = "[''application/vnd.vmware.vcloud.orgNetwork+xml''
           \<mapsto> [link_of ''application/vnd.vmware.vcloud.orgNetwork+xml'' ''https://vc/api/network/1'',
               link_of ''application/vnd.vmware.vcloud.orgNetwork+xml'' ''https://vc/api/network/2''],
           ''application/vnd.vmware.vcloud.vdc+xml''
           \<mapsto> [link_of ''application/vnd.vmware.vcloud.vdc+xml'' ''https://vc/api/vdc/1'']]"
        and ls = "[link_of ''application/vnd.vmware.vcloud.orgNetwork+xml'' ''https://vc/api/network/1'',
               link_of ''application/vnd.vmware.vcloud.orgNetwork+xml'' ''https://vc/api/network/2'']"
        and nets = "[org_net_of ''net1'', org_net_of ''net2'']"
        and w' = "[''https://vc/api/network/1'', ''https://vc/api/network/2'']"]
      org_nets_example
    by (simp add: nets_org_def org_with_def)
  moreover have "fetched_in_order server (client_of None) parse_org_vdcs []
          [link_of ''application/vnd.vmware.vcloud.vdc+xml'' ''https://vc/api/vdc/1''] [vdc]
          [''https://vc/api/vdc/1'']"
    using org_nets_vdcs_in_link_order [where og = nets_org and tr = server
        and self = "client_of None" and w = "[]"
        and d = "[''application/vnd.vmware.vcloud.orgNetwork+xml''
           \<mapsto> [link_of ''application/vnd.vmware.vcloud.orgNetwork+xml'' ''https://vc/api/network/1'',
               link_of ''application/vnd.vmware.vcloud.orgNetwork+xml'' ''https://vc/api/network/2''],
           ''application/vnd.vmware.vcloud.vdc+xml''
           \<mapsto> [link_of ''application/vnd.vmware.vcloud.vdc+xml'' ''https://vc/api/vdc/1'']]"
        and ls = "[link_of ''application/vnd.vmware.vcloud.vdc+xml'' ''https://vc/api/vdc/1'']"
        and vdcs = "[vdc]" and w' = "[''https://vc/api/vdc/1'']"]
      vdc(1)
    by (simp add: nets_org_def org_with_def)
  ultimately show ?thesis using vdc(2) by blast
qed

subsection \<open>What a listing leaves of the org record\<close>

lemma org_links_same: "Org.links og = x \<Longrightarrow> og\<lparr>Org.links := x\<rparr> = og"
  by auto

text \<open>
  C3, as amended. After \<open>org_nets\<close>, \<open>org_vdcs\<close> or \<open>org_vapps\<close> the org record has
  all its fields and every entry of its index as before, with one exception: when the index
  had no entry for the media type that the call reads, it now has that key with an empty
  list. A record whose \<open>links\<close> field is not an index is unchanged.
\<close>

theorem org_after_listing:
  "fst (snd (org_nets tr self og w))
     = (case Org.links og of
          PyObj d \<Rightarrow>
            (case d ''application/vnd.vmware.vcloud.orgNetwork+xml'' of
               None \<Rightarrow>
                 og\<lparr>Org.links := PyObj (d(''application/vnd.vmware.vcloud.orgNetwork+xml'' \<mapsto> []))\<rparr>
             | Some ls \<Rightarrow> og)
        | _ \<Rightarrow> og)
   \<and> fst (snd (org_vdcs tr self og w))
     = (case Org.links og of
          PyObj d \<Rightarrow>
            (case d ''application/vnd.vmware.vcloud.vdc+xml'' of
               None \<Rightarrow> og\<lparr>Org.links := PyObj (d(''application/vnd.vmware.vcloud.vdc+xml'' \<mapsto> []))\<rparr>
             | Some ls \<Rightarrow> og)
        | _ \<Rightarrow> og)
   \<and> fst (snd (org_vapps tr self og w)) = fst (snd (org_vdcs tr self og w))"
  by (auto simp: org_nets_def org_vdcs_def org_vapps_def index_getitem_def org_links_same
           split: pyfield.splits option.splits prod.splits sum.splits)

theorem org_after_listing_witness:
  "fst (snd (org_nets server (client_of None) nets_org [])) = nets_org
   \<and> fst (snd (org_vdcs server (client_of None) (org_of ''Acme'' ''https://vc/api/org/1'') []))
       = org_of ''Acme'' ''https://vc/api/org/1''
   \<and> fst (snd (org_vapps server (client_of None) (org_with Map.empty) []))
       = org_with [''application/vnd.vmware.vcloud.vdc+xml'' \<mapsto> []]"
  using
    org_after_listing [where tr = server and self = "client_of None" and og = nets_org
      and w = "[]"]
    org_after_listing [where tr = server and self = "client_of None"
      and og = "org_of ''Acme'' ''https://vc/api/org/1''" and w = "[]"]
    org_after_listing [where tr = server and self = "client_of None"
      and og = "org_with Map.empty" and w = "[]"]
  by (simp add: nets_org_def org_with_def org_of_def)

text \<open>
  \<open>org_nets\<close> on an org with an empty index changes the index of the record: reading
  the missing key of the \<^verbatim>\<open>defaultdict\<close> stores it.
\<close>

theorem org_links_mutated_counterexample:
  "fst (snd (org_nets server (client_of None) (org_with Map.empty) []))
     = org_with [''application/vnd.vmware.vcloud.orgNetwork+xml'' \<mapsto> []]
   \<and> org_with [''application/vnd.vmware.vcloud.orgNetwork+xml'' \<mapsto> []] \<noteq> org_with Map.empty"
  by (simp add: org_nets_def index_getitem_def org_with_def)

end
